theory Spec2Isabelle
  imports Main "HOL-Library.AList"
begin

section \<open>Form actions of the bookmark manager (src/routes/+page.server.ts)\<close>

text \<open>
  The file under verification exports eleven SvelteKit form actions over a relational
  database reached through an ORM. Each action is embedded as a function
  \<open>env \<Rightarrow> event \<Rightarrow> db \<Rightarrow> (error + response) \<times> db\<close>: the first component is the value the
  action's promise settles with (\<open>Inl\<close>: it rejects, the error leaves the action
  uncaught; \<open>Inr\<close>: the object it returns), the second is the database afterwards.
  The database is a record of tables together with the trace of the statements it
  has executed.

  What the source imports and this repository's \<open>src/\<close> does not hold (the table schemas,
  \<open>prepareTags\<close>, \<open>checkIfImageURL\<close>, \<open>createSlug\<close>, \<open>Storage\<close>, \<open>handlePBError\<close>) and
  the platform (\<open>JSON.parse\<close>, \<open>fetch\<close>, the clock, a database that may reject a
  statement) are fields of the record \<open>env\<close>; every theorem holds for all of them.
\<close>

subsection \<open>JavaScript values\<close>

text \<open>A JavaScript number that is an integer or \<open>NaN\<close> (what \<open>parseInt\<close> returns).
  Integers are exact here; values beyond \<open>2^53\<close> lose precision in the source.\<close>

datatype number = NaN | Num int

text \<open>What \<open>JSON.parse\<close> returns. Numbers are integers here (the identifiers the
  actions read); an object is the list of its properties in their order.\<close>

datatype json =
    JNull
  | JBool bool
  | JNum int
  | JStr string
  | JArr "json list"
  | JObj "(string \<times> json) list"

datatype error =
    TypeError
  | SyntaxError
  | DatabaseError string
  | Thrown string

text \<open>\<open>x as string\<close> where \<open>x\<close> is \<open>null\<close>, passed to a built-in that applies
  \<open>ToString\<close>.\<close>

definition to_string :: "string option \<Rightarrow> string" where
  "to_string x = (case x of None \<Rightarrow> ''null'' | Some s \<Rightarrow> s)"

text \<open>Truthiness of a nullable string, as in \<open>if (url && \<dots>)\<close> and \<open>a || '0'\<close>.\<close>

definition truthy_str :: "string option \<Rightarrow> bool" where
  "truthy_str x = (case x of None \<Rightarrow> False | Some s \<Rightarrow> s \<noteq> [])"

fun truthy :: "json \<Rightarrow> bool" where
  "truthy JNull = False"
| "truthy (JBool b) = b"
| "truthy (JNum n) = (n \<noteq> 0)"
| "truthy (JStr s) = (s \<noteq> [])"
| "truthy (JArr xs) = True"
| "truthy (JObj kvs) = True"

text \<open>\<open>a ?? b\<close>: \<open>b\<close> only when \<open>a\<close> is \<open>null\<close> or \<open>undefined\<close>.\<close>

definition nullish :: "'a option \<Rightarrow> 'a \<Rightarrow> 'a" where
  "nullish a b = (case a of None \<Rightarrow> b | Some v \<Rightarrow> v)"

subsubsection \<open>parseInt\<close>

text \<open>The white space \<open>parseInt\<close> skips, as far as it is ASCII.\<close>

definition is_space :: "char \<Rightarrow> bool" where
  "is_space c = (c \<in> set [CHR '' '', CHR 0x09, CHR 0x0A, CHR 0x0B, CHR 0x0C, CHR 0x0D])"

definition digit_value :: "char \<Rightarrow> nat option" where
  "digit_value c =
     (let n = (of_char c :: nat) in
      if 48 \<le> n \<and> n \<le> 57 then Some (n - 48)
      else if 97 \<le> n \<and> n \<le> 122 then Some (n - 87)
      else if 65 \<le> n \<and> n \<le> 90 then Some (n - 55)
      else None)"

definition is_digit :: "nat \<Rightarrow> char \<Rightarrow> bool" where
  "is_digit radix c = (case digit_value c of None \<Rightarrow> False | Some v \<Rightarrow> v < radix)"

definition digits_value :: "nat \<Rightarrow> string \<Rightarrow> nat" where
  "digits_value radix ds = foldl (\<lambda>acc c. acc * radix + (case digit_value c of None \<Rightarrow> 0 | Some v \<Rightarrow> v)) 0 ds"

text \<open>Steps 2 to 4 of \<open>parseInt\<close>: leading white space is dropped, then a sign is read.\<close>

definition strip_sign :: "string \<Rightarrow> bool \<times> string" where
  "strip_sign s =
     (case dropWhile is_space s of
        [] \<Rightarrow> (False, [])
      | c # r \<Rightarrow> if c = CHR ''-'' then (True, r)
                else if c = CHR ''+'' then (False, r)
                else (False, c # r))"

text \<open>The longest prefix of digits of the radix is the value; none gives \<open>NaN\<close>.\<close>

definition parse_digits :: "nat \<Rightarrow> bool \<Rightarrow> string \<Rightarrow> number" where
  "parse_digits radix neg s =
     (let ds = takeWhile (is_digit radix) s in
      if ds = [] then NaN
      else Num (if neg then - int (digits_value radix ds) else int (digits_value radix ds)))"

text \<open>\<open>parseInt(s, 10)\<close>: a \<open>0x\<close> prefix is not special.\<close>

definition parseInt10 :: "string \<Rightarrow> number" where
  "parseInt10 s = (case strip_sign s of (neg, r) \<Rightarrow> parse_digits 10 neg r)"

text \<open>\<open>parseInt(s)\<close>: radix 16 after a \<open>0x\<close> or \<open>0X\<close> prefix, else 10.\<close>

definition parseInt :: "string \<Rightarrow> number" where
  "parseInt s =
     (case strip_sign s of (neg, r) \<Rightarrow>
        (case r of
           a # b # r' \<Rightarrow>
             if a = CHR ''0'' \<and> (b = CHR ''x'' \<or> b = CHR ''X'') then parse_digits 16 neg r'
             else parse_digits 10 neg r
         | _ \<Rightarrow> parse_digits 10 neg r))"

subsubsection \<open>Object spread\<close>

fun show_nat :: "nat \<Rightarrow> string" where
  "show_nat n =
     (if n < 10 then [char_of (48 + n)]
      else show_nat (n div 10) @ [char_of (48 + n mod 10)])"

text \<open>The own enumerable properties \<open>{...x}\<close> copies: those of an object, the indices of
  an array or of a string, none of \<open>null\<close>, a boolean or a number.\<close>

fun spread :: "json \<Rightarrow> (string \<times> json) list" where
  "spread (JObj kvs) = kvs"
| "spread (JArr xs) = zip (map show_nat [0..<length xs]) xs"
| "spread (JStr s) = zip (map show_nat [0..<length s]) (map (\<lambda>c. JStr [c]) s)"
| "spread JNull = []"
| "spread (JBool b) = []"
| "spread (JNum n) = []"

text \<open>\<open>x?.value ? x.value : x\<close>, used for the category and the parent.\<close>

definition value_or_self :: "json \<Rightarrow> json" where
  "value_or_self x =
     (case x of
        JObj kvs \<Rightarrow>
          (case map_of kvs ''value'' of
             Some v \<Rightarrow> if truthy v then v else x
           | None \<Rightarrow> x)
      | _ \<Rightarrow> x)"

text \<open>\<open>url.split('.').pop()\<close>: what follows the last dot, the whole string without one.\<close>

definition split_pop :: "string \<Rightarrow> string" where
  "split_pop u = rev (takeWhile (\<lambda>c. c \<noteq> CHR ''.'') (rev u))"

subsection \<open>Tables\<close>

text \<open>
  The schema module is not part of the sources; the columns are those the actions name.
  A row of the bookmark table: the sixteen columns \<open>addNewBookmark\<close> inserts, the key, and
  the columns the patches write (\<open>mainImageId\<close>, \<open>iconId\<close>, \<open>read\<close>, \<open>openedTimes\<close>,
  \<open>openedLast\<close>). Nullable columns are options; a timestamp is a natural number.
\<close>

type_synonym timestamp = nat

record bookmark =
  b_id :: int
  b_ownerId :: int
  b_url :: "string option"
  b_author :: "string option"
  b_categoryId :: json
  b_title :: "string option"
  b_contentHtml :: "string option"
  b_contentPublishedDate :: "string option"
  b_contentText :: "string option"
  b_contentType :: "string option"
  b_description :: "string option"
  b_domain :: "string option"
  b_flagged :: "timestamp option"
  b_iconUrl :: "string option"
  b_importance :: number
  b_mainImageUrl :: "string option"
  b_note :: "string option"
  b_mainImageId :: "int option"
  b_iconId :: "int option"
  b_read :: "timestamp option"
  b_openedTimes :: "int option"
  b_openedLast :: "timestamp option"

text \<open>The object \<open>bookmarkData\<close> of \<open>addNewBookmark\<close> (the values of the insert).\<close>

record bookmark_values =
  v_ownerId :: int
  v_url :: "string option"
  v_author :: "string option"
  v_categoryId :: json
  v_title :: "string option"
  v_contentHtml :: "string option"
  v_contentPublishedDate :: "string option"
  v_contentText :: "string option"
  v_contentType :: "string option"
  v_description :: "string option"
  v_domain :: "string option"
  v_flagged :: "timestamp option"
  v_iconUrl :: "string option"
  v_importance :: number
  v_mainImageUrl :: "string option"
  v_note :: "string option"

text \<open>
  One \<open>key: value\<close> of an object given to \<open>.set\<close> of an update of the bookmark table.
  \<open>updateBookmark\<close> passes three keys, \<open>category\<close>, \<open>tags\<close> and \<open>owner\<close>, where the
  typed insert names the columns \<open>categoryId\<close> and \<open>ownerId\<close>: they are kept as
  \<open>Non_column\<close> entries, which the ORM drops when it builds the statement.
\<close>

datatype bookmark_assign =
    Set_author "string option"
  | Set_contentHtml "string option"
  | Set_contentPublishedDate "string option"
  | Set_contentText "string option"
  | Set_contentType "string option"
  | Set_description "string option"
  | Set_domain "string option"
  | Set_flagged "timestamp option"
  | Set_iconUrl "string option"
  | Set_importance number
  | Set_mainImageUrl "string option"
  | Set_note "string option"
  | Set_title "string option"
  | Set_url "string option"
  | Set_mainImageId int
  | Set_iconId int
  | Set_read "timestamp option"
  | Set_openedTimes int
  | Set_openedLast timestamp
  | Non_column string

fun assign_bookmark :: "bookmark_assign \<Rightarrow> bookmark \<Rightarrow> bookmark" where
  "assign_bookmark (Set_author x) b = b\<lparr>b_author := x\<rparr>"
| "assign_bookmark (Set_contentHtml x) b = b\<lparr>b_contentHtml := x\<rparr>"
| "assign_bookmark (Set_contentPublishedDate x) b = b\<lparr>b_contentPublishedDate := x\<rparr>"
| "assign_bookmark (Set_contentText x) b = b\<lparr>b_contentText := x\<rparr>"
| "assign_bookmark (Set_contentType x) b = b\<lparr>b_contentType := x\<rparr>"
| "assign_bookmark (Set_description x) b = b\<lparr>b_description := x\<rparr>"
| "assign_bookmark (Set_domain x) b = b\<lparr>b_domain := x\<rparr>"
| "assign_bookmark (Set_flagged x) b = b\<lparr>b_flagged := x\<rparr>"
| "assign_bookmark (Set_iconUrl x) b = b\<lparr>b_iconUrl := x\<rparr>"
| "assign_bookmark (Set_importance x) b = b\<lparr>b_importance := x\<rparr>"
| "assign_bookmark (Set_mainImageUrl x) b = b\<lparr>b_mainImageUrl := x\<rparr>"
| "assign_bookmark (Set_note x) b = b\<lparr>b_note := x\<rparr>"
| "assign_bookmark (Set_title x) b = b\<lparr>b_title := x\<rparr>"
| "assign_bookmark (Set_url x) b = b\<lparr>b_url := x\<rparr>"
| "assign_bookmark (Set_mainImageId x) b = b\<lparr>b_mainImageId := Some x\<rparr>"
| "assign_bookmark (Set_iconId x) b = b\<lparr>b_iconId := Some x\<rparr>"
| "assign_bookmark (Set_read x) b = b\<lparr>b_read := x\<rparr>"
| "assign_bookmark (Set_openedTimes x) b = b\<lparr>b_openedTimes := Some x\<rparr>"
| "assign_bookmark (Set_openedLast x) b = b\<lparr>b_openedLast := Some x\<rparr>"
| "assign_bookmark (Non_column k) b = b"

text \<open>A key whose value is \<open>undefined\<close> is left out of the statement by the ORM.\<close>

definition set_defined :: "('a \<Rightarrow> 'b) \<Rightarrow> 'a option \<Rightarrow> 'b list" where
  "set_defined col x = (case x of None \<Rightarrow> [] | Some v \<Rightarrow> [col v])"

text \<open>A row of the category table, with the columns \<open>addNewCategory\<close> inserts.\<close>

record category =
  c_id :: int
  c_name :: "string option"
  c_slug :: string
  c_description :: "string option"
  c_icon :: "string option"
  c_color :: "string option"
  c_parent :: json
  c_archived :: "timestamp option"
  c_public :: "timestamp option"
  c_owner :: int
  c_initial :: bool
  c_created :: timestamp
  c_updated :: timestamp

text \<open>The object \<open>requestBody\<close> of \<open>addNewCategory\<close>.\<close>

record category_values =
  cv_name :: "string option"
  cv_slug :: string
  cv_description :: "string option"
  cv_icon :: "string option"
  cv_color :: "string option"
  cv_parent :: json
  cv_archived :: "timestamp option"
  cv_public :: "timestamp option"
  cv_owner :: int
  cv_initial :: bool
  cv_created :: timestamp
  cv_updated :: timestamp

text \<open>One \<open>key: value\<close> of the object \<open>requestBody\<close> of \<open>updateCategory\<close>.\<close>

datatype category_assign =
    Set_name "string option"
  | Set_slug string
  | Set_cdescription "string option"
  | Set_icon "string option"
  | Set_color "string option"
  | Set_parent json
  | Set_archived "timestamp option"
  | Set_public "timestamp option"
  | Set_updated timestamp

fun assign_category :: "category_assign \<Rightarrow> category \<Rightarrow> category" where
  "assign_category (Set_name x) c = c\<lparr>c_name := x\<rparr>"
| "assign_category (Set_slug x) c = c\<lparr>c_slug := x\<rparr>"
| "assign_category (Set_cdescription x) c = c\<lparr>c_description := x\<rparr>"
| "assign_category (Set_icon x) c = c\<lparr>c_icon := x\<rparr>"
| "assign_category (Set_color x) c = c\<lparr>c_color := x\<rparr>"
| "assign_category (Set_parent x) c = c\<lparr>c_parent := x\<rparr>"
| "assign_category (Set_archived x) c = c\<lparr>c_archived := x\<rparr>"
| "assign_category (Set_public x) c = c\<lparr>c_public := x\<rparr>"
| "assign_category (Set_updated x) c = c\<lparr>c_updated := x\<rparr>"

text \<open>The join table between bookmarks and tags.\<close>

record bookmark_tag =
  bookmarkId :: int
  tagId :: int

text \<open>A row of the user table: the key and the settings column, a JSON text.\<close>

record user_row =
  u_id :: int
  u_settings :: "string option"

text \<open>Rows of the tag table and stored files: written by \<open>prepareTags\<close> and by
  \<open>Storage\<close> only, whose sources are not in the repository's \<open>src/\<close>.\<close>

typedecl tag_row
typedecl file_row

type_synonym bytes = "nat list"

subsection \<open>Statements\<close>

text \<open>The \<open>where\<close> clause of a statement: none, or \<open>eq(table.id, n)\<close>. No row's key
  equals \<open>NaN\<close>.\<close>

datatype row_filter = All_rows | Id_eq number

fun matches :: "row_filter \<Rightarrow> int \<Rightarrow> bool" where
  "matches All_rows i = True"
| "matches (Id_eq NaN) i = False"
| "matches (Id_eq (Num n)) i = (i = n)"

datatype stmt =
    Insert_bookmark bookmark_values
  | Insert_bookmarksToTags int int
  | Update_bookmark "bookmark_assign list" row_filter
  | Delete_bookmark row_filter
  | Select_bookmark_openedTimes row_filter
  | Insert_category category_values
  | Update_category "category_assign list" row_filter
  | Delete_category row_filter
  | Select_user_settings row_filter
  | Update_user_settings json row_filter

fun is_mutation :: "stmt \<Rightarrow> bool" where
  "is_mutation (Select_bookmark_openedTimes f) = False"
| "is_mutation (Select_user_settings f) = False"
| "is_mutation s = True"

record db =
  bookmarks :: "bookmark list"
  bookmarksToTags :: "bookmark_tag list"
  categories :: "category list"
  users :: "user_row list"
  tags :: "tag_row list"
  files :: "file_row list"
  next_bookmark_id :: int
  next_category_id :: int
  executed :: "stmt list"

subsection \<open>The environment of an action\<close>

text \<open>
  Modelled from the spec: \<open>prepareTags\<close> (the Tag Resolver) returns tag identifiers,
  creating tags as needed: it reads and writes the tag table only. \<open>storeFile\<close> (the
  Storage collaborator) persists a file and returns the stored rows' identifiers: it
  writes the stored files only. Both may throw, as may \<open>fetch\<close> and \<open>createSlug\<close>.
  \<open>json_parse\<close> is \<open>JSON.parse\<close>, \<open>None\<close> where it throws a \<open>SyntaxError\<close>.
  \<open>rejects\<close> says which statements the database refuses in which state, and with
  which error. \<open>clock k\<close> is the value of the \<open>k\<close>-th \<open>new Date()\<close> of an action, in
  the order of the source text.
\<close>

record env =
  json_parse :: "string \<Rightarrow> json option"
  json_stringify :: "json \<Rightarrow> string"
  prepareTags :: "tag_row list \<Rightarrow> json \<Rightarrow> int \<Rightarrow> error + (int list \<times> tag_row list)"
  checkIfImageURL :: "string \<Rightarrow> bool"
  createSlug :: "string option \<Rightarrow> error + string"
  fetch :: "string \<Rightarrow> error + bytes"
  storeFile :: "file_row list \<Rightarrow> bytes \<Rightarrow> int \<Rightarrow> string \<Rightarrow> error + (int list \<times> file_row list)"
  rejects :: "db \<Rightarrow> stmt \<Rightarrow> error option"
  clock :: "nat \<Rightarrow> timestamp"
  openedTimes_default :: "int option"

text \<open>The request: \<open>locals.user?.id\<close> and the form data, whose reading may throw.
  \<open>data.get(k)\<close> is \<open>null\<close> for a field that was not sent.\<close>

type_synonym form_data = "string \<Rightarrow> string option"

record event =
  locals_user_id :: "int option"
  formData :: "error + form_data"

text \<open>\<open>const owner = locals.user?.id; if (!owner) \<dots>\<close>: an absent identifier and the
  identifier \<open>0\<close> are both falsy.\<close>

definition owner_of :: "event \<Rightarrow> int option" where
  "owner_of ev =
     (case locals_user_id ev of
        None \<Rightarrow> None
      | Some i \<Rightarrow> if i = 0 then None else Some i)"

text \<open>What \<open>handlePBError\<close> is called with: the caught error, or the row without an id.\<close>

datatype pb_subject = Caught error | Returned bookmark

text \<open>
  The objects the actions return:
  \<^item> \<open>Unauthorized\<close> is \<open>{success: false, error: 'Unauthorized'}\<close>;
  \<^item> \<open>Failure\<close> is \<open>{success: false}\<close>;
  \<^item> \<open>Success\<close> is \<open>{success: true}\<close>;
  \<^item> \<open>Success_id n\<close> is \<open>{id: n, success: true}\<close>;
  \<^item> \<open>Success_bookmark b\<close> is \<open>{bookmark: b, success: true}\<close>;
  \<^item> \<open>PBError x\<close> is the value of \<open>handlePBError(x, pb, true)\<close>.
\<close>

datatype response =
    Unauthorized
  | Failure
  | Success
  | Success_id number
  | Success_bookmark "bookmark option"
  | PBError pb_subject

text \<open>The \<open>success\<close> and \<open>error\<close> properties of the object literals of the source
  (\<open>None\<close>: the literal has no such property, or the object is \<open>handlePBError\<close>'s).\<close>

fun success :: "response \<Rightarrow> bool option" where
  "success Unauthorized = Some False"
| "success Failure = Some False"
| "success Success = Some True"
| "success (Success_id n) = Some True"
| "success (Success_bookmark b) = Some True"
| "success (PBError x) = None"

fun error_property :: "response \<Rightarrow> string option" where
  "error_property Unauthorized = Some ''Unauthorized''"
| "error_property r = None"

type_synonym outcome = "(error + response) \<times> db"

subsection \<open>Executing statements\<close>

text \<open>The row an insert into the bookmark table creates: the key comes from the
  table's sequence, the columns the insert does not name are \<open>NULL\<close> (the counter has
  the schema's default).\<close>

definition new_bookmark :: "env \<Rightarrow> int \<Rightarrow> bookmark_values \<Rightarrow> bookmark" where
  "new_bookmark env i v =
     \<lparr>b_id = i, b_ownerId = v_ownerId v, b_url = v_url v, b_author = v_author v,
      b_categoryId = v_categoryId v, b_title = v_title v, b_contentHtml = v_contentHtml v,
      b_contentPublishedDate = v_contentPublishedDate v, b_contentText = v_contentText v,
      b_contentType = v_contentType v, b_description = v_description v,
      b_domain = v_domain v, b_flagged = v_flagged v, b_iconUrl = v_iconUrl v,
      b_importance = v_importance v, b_mainImageUrl = v_mainImageUrl v, b_note = v_note v,
      b_mainImageId = None, b_iconId = None, b_read = None,
      b_openedTimes = openedTimes_default env, b_openedLast = None\<rparr>"

definition new_category :: "int \<Rightarrow> category_values \<Rightarrow> category" where
  "new_category i v =
     \<lparr>c_id = i, c_name = cv_name v, c_slug = cv_slug v, c_description = cv_description v,
      c_icon = cv_icon v, c_color = cv_color v, c_parent = cv_parent v,
      c_archived = cv_archived v, c_public = cv_public v, c_owner = cv_owner v,
      c_initial = cv_initial v, c_created = cv_created v, c_updated = cv_updated v\<rparr>"

text \<open>What an accepted statement does to the tables. An update or a delete touches
  the rows its \<open>where\<close> clause matches, all rows without one. Each statement writes
  the table it names only: the schema's foreign keys and cascades are not part of the
  sources.\<close>

fun effect :: "env \<Rightarrow> stmt \<Rightarrow> db \<Rightarrow> db" where
  "effect env (Insert_bookmark v) d =
     d\<lparr>bookmarks := bookmarks d @ [new_bookmark env (next_bookmark_id d) v],
       next_bookmark_id := next_bookmark_id d + 1\<rparr>"
| "effect env (Insert_bookmarksToTags b t) d =
     d\<lparr>bookmarksToTags := bookmarksToTags d @ [\<lparr>bookmarkId = b, tagId = t\<rparr>]\<rparr>"
| "effect env (Update_bookmark assigns f) d =
     d\<lparr>bookmarks :=
         map (\<lambda>b. if matches f (b_id b) then fold assign_bookmark assigns b else b)
           (bookmarks d)\<rparr>"
| "effect env (Delete_bookmark f) d =
     d\<lparr>bookmarks := filter (\<lambda>b. \<not> matches f (b_id b)) (bookmarks d)\<rparr>"
| "effect env (Select_bookmark_openedTimes f) d = d"
| "effect env (Insert_category v) d =
     d\<lparr>categories := categories d @ [new_category (next_category_id d) v],
       next_category_id := next_category_id d + 1\<rparr>"
| "effect env (Update_category assigns f) d =
     d\<lparr>categories :=
         map (\<lambda>c. if matches f (c_id c) then fold assign_category assigns c else c)
           (categories d)\<rparr>"
| "effect env (Delete_category f) d =
     d\<lparr>categories := filter (\<lambda>c. \<not> matches f (c_id c)) (categories d)\<rparr>"
| "effect env (Select_user_settings f) d = d"
| "effect env (Update_user_settings j f) d =
     d\<lparr>users :=
         map (\<lambda>u. if matches f (u_id u) then u\<lparr>u_settings := Some (json_stringify env j)\<rparr>
                   else u)
           (users d)\<rparr>"

text \<open>\<open>await\<close> of a statement: the database rejects it and nothing changes, or it
  takes effect and joins the trace.\<close>

definition run :: "env \<Rightarrow> stmt \<Rightarrow> db \<Rightarrow> error + db" where
  "run env s d =
     (case rejects env d s of
        Some e \<Rightarrow> Inl e
      | None \<Rightarrow> Inr (effect env s (d\<lparr>executed := executed d @ [s]\<rparr>)))"

text \<open>\<open>const [x] = rows\<close>: the first row, \<open>undefined\<close> without one.\<close>

definition first_row :: "'a list \<Rightarrow> 'a option" where
  "first_row rows = (case rows of [] \<Rightarrow> None | x # _ \<Rightarrow> Some x)"

text \<open>\<open>db.insert(bookmarkSchema).values(v).returning()\<close>, destructured to its one row.\<close>

definition insert_bookmark :: "env \<Rightarrow> bookmark_values \<Rightarrow> db \<Rightarrow> error + (bookmark \<times> db)" where
  "insert_bookmark env v d =
     (case run env (Insert_bookmark v) d of
        Inl e \<Rightarrow> Inl e
      | Inr d' \<Rightarrow> Inr (new_bookmark env (next_bookmark_id d) v, d'))"

text \<open>
  \<open>await Promise.all(tagIds.map((tagId) => db.insert(bookmarksToTagsSchema).values(\<dots>)))\<close>:
  every insert is started; one that is rejected does not stop the others, and the
  first rejection is what \<open>Promise.all\<close> rejects with. The rows are appended in the order
  of \<open>tagIds\<close> (the source leaves the order open).
\<close>

fun insert_tags :: "env \<Rightarrow> int \<Rightarrow> int list \<Rightarrow> db \<Rightarrow> error option \<times> db" where
  "insert_tags env bid [] d = (None, d)"
| "insert_tags env bid (t # ts) d =
     (case run env (Insert_bookmarksToTags bid t) d of
        Inl e \<Rightarrow> (case insert_tags env bid ts d of (_, d') \<Rightarrow> (Some e, d'))
      | Inr d1 \<Rightarrow> insert_tags env bid ts d1)"

subsection \<open>storeImage\<close>

definition storeImage :: "env \<Rightarrow> string option \<Rightarrow> string option \<Rightarrow> int \<Rightarrow> db \<Rightarrow> (error + int option) \<times> db" where
  "storeImage env url title ownerId d =
     (case url of
        None \<Rightarrow> (Inr None, d)
      | Some u \<Rightarrow>
          if u \<noteq> [] \<and> checkIfImageURL env u then
            (case fetch env u of
               Inl e \<Rightarrow> (Inl e, d)
             | Inr arrayBuffer \<Rightarrow>
                 (case createSlug env title of
                    Inl e \<Rightarrow> (Inl e, d)
                  | Inr slug \<Rightarrow>
                      (let fileName = slug @ ''.'' @ split_pop u in
                       case storeFile env (files d) arrayBuffer ownerId fileName of
                         Inl e \<Rightarrow> (Inl e, d)
                       | Inr (ids, fs) \<Rightarrow>
                           (case ids of
                              [] \<Rightarrow> (Inl TypeError, d\<lparr>files := fs\<rparr>)
                            | i # _ \<Rightarrow> (Inr (Some i), d\<lparr>files := fs\<rparr>)))))
          else (Inr None, d))"

text \<open>The negation of \<open>url && checkIfImageURL(url)\<close>: the URL is absent, empty, or
  fails the image-URL check.\<close>

definition no_image :: "env \<Rightarrow> string option \<Rightarrow> bool" where
  "no_image env url = (case url of None \<Rightarrow> True | Some u \<Rightarrow> u = [] \<or> \<not> checkIfImageURL env u)"

text \<open>\<open>mainImageId || iconId\<close>: an identifier that is \<open>undefined\<close> or \<open>0\<close> is falsy.\<close>

definition truthy_id :: "int option \<Rightarrow> bool" where
  "truthy_id x = (case x of None \<Rightarrow> False | Some i \<Rightarrow> i \<noteq> 0)"

text \<open>The image patch both bookmark workflows end with.\<close>

definition image_patch :: "int option \<Rightarrow> int option \<Rightarrow> int \<Rightarrow> stmt" where
  "image_patch mainImageId iconId bid =
     Update_bookmark (set_defined Set_mainImageId mainImageId @ set_defined Set_iconId iconId)
       (Id_eq (Num bid))"

subsection \<open>Reading the form\<close>

text \<open>\<open>(data.get(k) || '0') as string\<close>.\<close>

definition or_zero :: "string option \<Rightarrow> string" where
  "or_zero x = (if truthy_str x then to_string x else ''0'')"

text \<open>\<open>data.get(k) === 'on' ? new Date() : null\<close>.\<close>

definition toggle :: "form_data \<Rightarrow> string \<Rightarrow> timestamp \<Rightarrow> timestamp option" where
  "toggle data k now = (if data k = Some ''on'' then Some now else None)"

text \<open>\<open>JSON.parse(data.get(k) as string)\<close>.\<close>

definition parse_field :: "env \<Rightarrow> form_data \<Rightarrow> string \<Rightarrow> error + json" where
  "parse_field env data k =
     (case json_parse env (to_string (data k)) of
        None \<Rightarrow> Inl SyntaxError
      | Some j \<Rightarrow> Inr j)"

text \<open>\<open>data.get('tags') ? JSON.parse(data.get('tags') as string) : []\<close>.\<close>

definition parse_tags :: "env \<Rightarrow> form_data \<Rightarrow> error + json" where
  "parse_tags env data =
     (if truthy_str (data ''tags'') then parse_field env data ''tags'' else Inr (JArr []))"

subsection \<open>addNewBookmark\<close>

text \<open>Lines 103 to 119: both images are archived, the bookmark is patched when one of
  the two identifiers is truthy, and the success object is returned.\<close>

definition addNewBookmark_images :: "env \<Rightarrow> int \<Rightarrow> string option \<Rightarrow> string option \<Rightarrow> string option \<Rightarrow> bookmark \<Rightarrow> db \<Rightarrow> outcome" where
  "addNewBookmark_images env owner mainImageUrl iconUrl title bookmark d =
     (case storeImage env mainImageUrl title owner d of
        (Inl e, d1) \<Rightarrow> (Inl e, d1)
      | (Inr mainImageId, d1) \<Rightarrow>
          (case storeImage env iconUrl title owner d1 of
             (Inl e, d2) \<Rightarrow> (Inl e, d2)
           | (Inr iconId, d2) \<Rightarrow>
               if truthy_id mainImageId \<or> truthy_id iconId then
                 (case run env (image_patch mainImageId iconId (b_id bookmark)) d2 of
                    Inl e \<Rightarrow> (Inl e, d2)
                  | Inr d3 \<Rightarrow> (Inr (Success_bookmark (Some bookmark)), d3))
               else (Inr (Success_bookmark (Some bookmark)), d2)))"

text \<open>Lines 88 to 119: the insert, the check of the new row's id, the join rows.\<close>

definition addNewBookmark_insert :: "env \<Rightarrow> int \<Rightarrow> int list \<Rightarrow> bookmark_values \<Rightarrow> db \<Rightarrow> outcome" where
  "addNewBookmark_insert env owner tagIds bookmarkData d =
     (case insert_bookmark env bookmarkData d of
        Inl e \<Rightarrow> (Inl e, d)
      | Inr (bookmark, d1) \<Rightarrow>
          if b_id bookmark = 0 then (Inr (PBError (Returned bookmark)), d1)
          else
            (case insert_tags env (b_id bookmark) tagIds d1 of
               (Some e, d2) \<Rightarrow> (Inl e, d2)
             | (None, d2) \<Rightarrow>
                 addNewBookmark_images env owner (v_mainImageUrl bookmarkData)
                   (v_iconUrl bookmarkData) (v_title bookmarkData) bookmark d2))"

text \<open>The object \<open>bookmarkData\<close> of lines 69 to 86.\<close>

definition addNewBookmark_data :: "env \<Rightarrow> int \<Rightarrow> form_data \<Rightarrow> json \<Rightarrow> bookmark_values" where
  "addNewBookmark_data env owner data category =
     \<lparr>v_ownerId = owner,
      v_url = data ''url'',
      v_author = data ''author'',
      v_categoryId = value_or_self category,
      v_title = data ''title'',
      v_contentHtml = data ''content_html'',
      v_contentPublishedDate = data ''content_published_date'',
      v_contentText = data ''content_text'',
      v_contentType = data ''content_type'',
      v_description = data ''description'',
      v_domain = data ''domain'',
      v_flagged = toggle data ''flagged'' (clock env 0),
      v_iconUrl = data ''icon_url'',
      v_importance = parseInt (or_zero (data ''importance'')),
      v_mainImageUrl = data ''main_image_url'',
      v_note = data ''note''\<rparr>"

text \<open>Lines 50 to 119, the body of the \<open>try\<close>: the fields are read, the category and
  the tags are parsed, the tags are resolved.\<close>

definition addNewBookmark_try :: "env \<Rightarrow> int \<Rightarrow> form_data \<Rightarrow> db \<Rightarrow> outcome" where
  "addNewBookmark_try env owner data d =
     (case parse_field env data ''category'' of
        Inl e \<Rightarrow> (Inl e, d)
      | Inr category \<Rightarrow>
          (case parse_tags env data of
             Inl e \<Rightarrow> (Inl e, d)
           | Inr tags_json \<Rightarrow>
               (case prepareTags env (tags d) tags_json owner of
                  Inl e \<Rightarrow> (Inl e, d)
                | Inr (tagIds, tag_rows) \<Rightarrow>
                    addNewBookmark_insert env owner tagIds
                      (addNewBookmark_data env owner data category)
                      (d\<lparr>tags := tag_rows\<rparr>))))"

text \<open>\<open>catch (e: any) { return handlePBError(e, pb, true); }\<close>.\<close>

definition catch_pb :: "outcome \<Rightarrow> outcome" where
  "catch_pb r = (case r of (Inl e, d) \<Rightarrow> (Inr (PBError (Caught e)), d) | (Inr x, d) \<Rightarrow> (Inr x, d))"

definition addNewBookmark :: "env \<Rightarrow> event \<Rightarrow> db \<Rightarrow> outcome" where
  "addNewBookmark env ev d =
     (case owner_of ev of
        None \<Rightarrow> (Inr Unauthorized, d)
      | Some owner \<Rightarrow>
          (case formData ev of
             Inl e \<Rightarrow> (Inl e, d)
           | Inr data \<Rightarrow> catch_pb (addNewBookmark_try env owner data d)))"

subsection \<open>deleteBookmark\<close>

definition deleteBookmark :: "env \<Rightarrow> event \<Rightarrow> db \<Rightarrow> outcome" where
  "deleteBookmark env ev d =
     (case owner_of ev of
        None \<Rightarrow> (Inr Unauthorized, d)
      | Some owner \<Rightarrow>
          (case formData ev of
             Inl e \<Rightarrow> (Inl e, d)
           | Inr data \<Rightarrow>
               (let id = parseInt10 (to_string (data ''id''))
                in case run env (Delete_bookmark (Id_eq id)) d of
                     Inl e \<Rightarrow> (Inl e, d)
                   | Inr d1 \<Rightarrow> (Inr (Success_id id), d1))))"

subsection \<open>updateBookmark\<close>

text \<open>The object \<open>bookmarkData\<close> of \<open>updateBookmark\<close>, key by key in the order of the
  source.\<close>

definition updateBookmark_data :: "form_data \<Rightarrow> number \<Rightarrow> timestamp option \<Rightarrow> bookmark_assign list" where
  "updateBookmark_data data importance flagged =
     [Set_author (data ''author''),
      Non_column ''category'',
      Non_column ''tags'',
      Set_contentHtml (data ''content_html''),
      Set_contentPublishedDate (data ''content_published_date''),
      Set_contentText (data ''content_text''),
      Set_contentType (data ''content_type''),
      Set_description (data ''description''),
      Set_domain (data ''domain''),
      Set_flagged flagged,
      Set_iconUrl (data ''icon_url''),
      Set_importance importance,
      Set_mainImageUrl (data ''main_image_url''),
      Set_note (data ''note''),
      Non_column ''owner'',
      Set_title (data ''title''),
      Set_url (data ''url'')]"

text \<open>Lines 211 to 227. The row the update returned may be \<open>undefined\<close>; reading its
  \<open>id\<close> for the patch is then a \<open>TypeError\<close>.\<close>

definition updateBookmark_images :: "env \<Rightarrow> int \<Rightarrow> string option \<Rightarrow> string option \<Rightarrow> string option \<Rightarrow> bookmark option \<Rightarrow> db \<Rightarrow> outcome" where
  "updateBookmark_images env owner mainImageUrl iconUrl title bookmark d =
     (case storeImage env mainImageUrl title owner d of
        (Inl e, d1) \<Rightarrow> (Inl e, d1)
      | (Inr mainImageId, d1) \<Rightarrow>
          (case storeImage env iconUrl title owner d1 of
             (Inl e, d2) \<Rightarrow> (Inl e, d2)
           | (Inr iconId, d2) \<Rightarrow>
               if truthy_id mainImageId \<or> truthy_id iconId then
                 (case bookmark of
                    None \<Rightarrow> (Inl TypeError, d2)
                  | Some b \<Rightarrow>
                      (case run env (image_patch mainImageId iconId (b_id b)) d2 of
                         Inl e \<Rightarrow> (Inl e, d2)
                       | Inr d3 \<Rightarrow> (Inr (Success_bookmark bookmark), d3)))
               else (Inr (Success_bookmark bookmark), d2)))"

text \<open>Lines 202 to 209. With no returned row, the first call of the arrow function
  throws a \<open>TypeError\<close> before any insert is built; with no tag there is no call.\<close>

definition updateBookmark_tags :: "env \<Rightarrow> bookmark option \<Rightarrow> int list \<Rightarrow> db \<Rightarrow> error option \<times> db" where
  "updateBookmark_tags env bookmark tagIds d =
     (case bookmark of
        None \<Rightarrow> if tagIds = [] then (None, d) else (Some TypeError, d)
      | Some b \<Rightarrow> insert_tags env (b_id b) tagIds d)"

definition updateBookmark_body :: "env \<Rightarrow> int \<Rightarrow> form_data \<Rightarrow> db \<Rightarrow> outcome" where
  "updateBookmark_body env owner data d =
     (let id = parseInt10 (to_string (data ''id''));
          importance = parseInt (or_zero (data ''importance''));
          flagged = toggle data ''flagged'' (clock env 0)
      in case parse_field env data ''category'' of
           Inl e \<Rightarrow> (Inl e, d)
         | Inr category \<Rightarrow>
             (case parse_tags env data of
                Inl e \<Rightarrow> (Inl e, d)
              | Inr tags_json \<Rightarrow>
                  (case prepareTags env (tags d) tags_json owner of
                     Inl e \<Rightarrow> (Inl e, d)
                   | Inr (tagIds, tag_rows) \<Rightarrow>
                       (let d1 = d\<lparr>tags := tag_rows\<rparr>
                        in case run env (Update_bookmark (updateBookmark_data data importance flagged) (Id_eq id)) d1 of
                             Inl e \<Rightarrow> (Inl e, d1)
                           | Inr d2 \<Rightarrow>
                               (let bookmark = first_row (filter (\<lambda>b. matches (Id_eq id) (b_id b)) (bookmarks d2))
                                in case updateBookmark_tags env bookmark tagIds d2 of
                                     (Some e, d3) \<Rightarrow> (Inl e, d3)
                                   | (None, d3) \<Rightarrow>
                                       updateBookmark_images env owner (data ''main_image_url'')
                                         (data ''icon_url'') (data ''title'') bookmark d3)))))"

definition updateBookmark :: "env \<Rightarrow> event \<Rightarrow> db \<Rightarrow> outcome" where
  "updateBookmark env ev d =
     (case owner_of ev of
        None \<Rightarrow> (Inr Unauthorized, d)
      | Some owner \<Rightarrow>
          (case formData ev of
             Inl e \<Rightarrow> (Inl e, d)
           | Inr data \<Rightarrow> updateBookmark_body env owner data d))"

subsection \<open>The field patches\<close>

definition updateFlagged :: "env \<Rightarrow> event \<Rightarrow> db \<Rightarrow> outcome" where
  "updateFlagged env ev d =
     (case owner_of ev of
        None \<Rightarrow> (Inr Unauthorized, d)
      | Some owner \<Rightarrow>
          (case formData ev of
             Inl e \<Rightarrow> (Inl e, d)
           | Inr data \<Rightarrow>
               (let id = parseInt10 (to_string (data ''id''));
                    flagged = toggle data ''flagged'' (clock env 0)
                in case run env (Update_bookmark [Set_flagged flagged] (Id_eq id)) d of
                     Inl e \<Rightarrow> (Inl e, d)
                   | Inr d1 \<Rightarrow> (Inr Success, d1))))"

definition updateImportance :: "env \<Rightarrow> event \<Rightarrow> db \<Rightarrow> outcome" where
  "updateImportance env ev d =
     (case owner_of ev of
        None \<Rightarrow> (Inr Unauthorized, d)
      | Some owner \<Rightarrow>
          (case formData ev of
             Inl e \<Rightarrow> (Inl e, d)
           | Inr data \<Rightarrow>
               (let id = parseInt10 (to_string (data ''id''));
                    importance = parseInt (or_zero (data ''importance''))
                in case run env (Update_bookmark [Set_importance importance] (Id_eq id)) d of
                     Inl e \<Rightarrow> (Inl e, d)
                   | Inr d1 \<Rightarrow> (Inr Success, d1))))"

definition updateRead :: "env \<Rightarrow> event \<Rightarrow> db \<Rightarrow> outcome" where
  "updateRead env ev d =
     (case owner_of ev of
        None \<Rightarrow> (Inr Unauthorized, d)
      | Some owner \<Rightarrow>
          (case formData ev of
             Inl e \<Rightarrow> (Inl e, d)
           | Inr data \<Rightarrow>
               (let id = parseInt10 (to_string (data ''id''));
                    read = toggle data ''read'' (clock env 0)
                in case run env (Update_bookmark [Set_read read] (Id_eq id)) d of
                     Inl e \<Rightarrow> (Inl e, d)
                   | Inr d1 \<Rightarrow> (Inr Success, d1))))"

text \<open>The value of \<open>opened_times ?? 0 + 1\<close>: \<open>+\<close> binds tighter than \<open>??\<close>.\<close>

definition increased :: "int option \<Rightarrow> int" where
  "increased opened_times = nullish opened_times (0 + 1)"

text \<open>\<open>const [{ opened_times }] = await db.select(\<dots>).where(eq(bookmarkSchema.id, id))\<close>:
  destructuring the first row throws a \<open>TypeError\<close> when the select returns none. The
  update that follows has no \<open>where\<close>.\<close>

definition updateIncreasedOpenedCount :: "env \<Rightarrow> event \<Rightarrow> db \<Rightarrow> outcome" where
  "updateIncreasedOpenedCount env ev d =
     (case owner_of ev of
        None \<Rightarrow> (Inr Unauthorized, d)
      | Some owner \<Rightarrow>
          (case formData ev of
             Inl e \<Rightarrow> (Inl e, d)
           | Inr data \<Rightarrow>
               (let id = parseInt10 (to_string (data ''id''))
                in case run env (Select_bookmark_openedTimes (Id_eq id)) d of
                     Inl e \<Rightarrow> (Inl e, d)
                   | Inr d1 \<Rightarrow>
                       (case filter (\<lambda>b. matches (Id_eq id) (b_id b)) (bookmarks d1) of
                          [] \<Rightarrow> (Inl TypeError, d1)
                        | b # _ \<Rightarrow>
                            (let opened_times = b_openedTimes b
                             in case run env
                                    (Update_bookmark
                                       [Set_openedTimes (increased opened_times),
                                        Set_openedLast (clock env 0)]
                                       All_rows) d1 of
                                  Inl e \<Rightarrow> (Inl e, d1)
                                | Inr d2 \<Rightarrow> (Inr Success, d2))))))"

subsection \<open>The category actions\<close>

text \<open>\<open>parentValue === 'null' ? null : parentValue\<close>.\<close>

definition null_string :: "json \<Rightarrow> json" where
  "null_string parentValue = (if parentValue = JStr ''null'' then JNull else parentValue)"

definition addNewCategory :: "env \<Rightarrow> event \<Rightarrow> db \<Rightarrow> outcome" where
  "addNewCategory env ev d =
     (case owner_of ev of
        None \<Rightarrow> (Inr Unauthorized, d)
      | Some owner \<Rightarrow>
          (case formData ev of
             Inl e \<Rightarrow> (Inl e, d)
           | Inr data \<Rightarrow>
               (case parse_field env data ''parent'' of
                  Inl e \<Rightarrow> (Inl e, d)
                | Inr parent \<Rightarrow>
                    (let parentValue = value_or_self parent;
                         archived = toggle data ''archived'' (clock env 0);
                         setPublic = toggle data ''public'' (clock env 1)
                     in case createSlug env (data ''name'') of
                          Inl e \<Rightarrow> (Inl e, d)
                        | Inr slug \<Rightarrow>
                            (let requestBody =
                                   \<lparr>cv_name = data ''name'',
                                    cv_slug = slug,
                                    cv_description = data ''description'',
                                    cv_icon = data ''icon'',
                                    cv_color = data ''color'',
                                    cv_parent = null_string parentValue,
                                    cv_archived = archived,
                                    cv_public = setPublic,
                                    cv_owner = owner,
                                    cv_initial = False,
                                    cv_created = clock env 2,
                                    cv_updated = clock env 3\<rparr>
                             in case run env (Insert_category requestBody) d of
                                  Inl e \<Rightarrow> (Inl e, d)
                                | Inr d1 \<Rightarrow> (Inr (Success_id (Num (next_category_id d))), d1))))))"

definition updateCategory :: "env \<Rightarrow> event \<Rightarrow> db \<Rightarrow> outcome" where
  "updateCategory env ev d =
     (case owner_of ev of
        None \<Rightarrow> (Inr Unauthorized, d)
      | Some owner \<Rightarrow>
          (case formData ev of
             Inl e \<Rightarrow> (Inl e, d)
           | Inr data \<Rightarrow>
               (let id = parseInt10 (to_string (data ''id''))
                in case parse_field env data ''parent'' of
                     Inl e \<Rightarrow> (Inl e, d)
                   | Inr parent \<Rightarrow>
                       (let parentValue = value_or_self parent;
                            archived = toggle data ''archived'' (clock env 0);
                            setPublic = toggle data ''public'' (clock env 1)
                        in case createSlug env (data ''name'') of
                             Inl e \<Rightarrow> (Inl e, d)
                           | Inr slug \<Rightarrow>
                               (let requestBody =
                                      [Set_name (data ''name''),
                                       Set_slug slug,
                                       Set_cdescription (data ''description''),
                                       Set_icon (data ''icon''),
                                       Set_color (data ''color''),
                                       Set_parent (null_string parentValue),
                                       Set_archived archived,
                                       Set_public setPublic,
                                       Set_updated (clock env 2)]
                                in case run env (Update_category requestBody (Id_eq id)) d of
                                     Inl e \<Rightarrow> (Inl e, d)
                                   | Inr d1 \<Rightarrow> (Inr Success, d1))))))"

definition deleteCategory :: "env \<Rightarrow> event \<Rightarrow> db \<Rightarrow> outcome" where
  "deleteCategory env ev d =
     (case owner_of ev of
        None \<Rightarrow> (Inr Failure, d)
      | Some owner \<Rightarrow>
          (case formData ev of
             Inl e \<Rightarrow> (Inl e, d)
           | Inr data \<Rightarrow>
               (let id = parseInt10 (to_string (data ''id''))
                in case run env (Delete_category (Id_eq id)) d of
                     Inl e \<Rightarrow> (Inl e, d)
                   | Inr d1 \<Rightarrow> (Inr Success, d1))))"

subsection \<open>changeTheme\<close>

text \<open>\<open>data.get('theme') as string\<close> as a property value: \<open>null\<close> when the field was
  not sent.\<close>

definition theme_value :: "form_data \<Rightarrow> json" where
  "theme_value data = (case data ''theme'' of None \<Rightarrow> JNull | Some s \<Rightarrow> JStr s)"

text \<open>\<open>{ ...(JSON.parse(settings as string) as UserSettings), theme }\<close>: the spread
  properties in their order, \<open>theme\<close> replaced where it is one of them and added last
  where it is not.\<close>

definition merge_theme :: "json \<Rightarrow> json \<Rightarrow> json" where
  "merge_theme existing theme = JObj (AList.update ''theme'' theme (spread existing))"

text \<open>Lines 440 to 458. Inside the \<open>try\<close>: \<open>existingSettings[0].settings\<close> (a
  \<open>TypeError\<close> without a row), \<open>JSON.parse\<close> and the update; the \<open>catch\<close> returns
  \<open>{success: false}\<close>.\<close>

definition changeTheme_try :: "env \<Rightarrow> int \<Rightarrow> json \<Rightarrow> user_row list \<Rightarrow> db \<Rightarrow> outcome" where
  "changeTheme_try env owner theme existingSettings d =
     (case existingSettings of
        [] \<Rightarrow> (Inl TypeError, d)
      | u # _ \<Rightarrow>
          (case json_parse env (to_string (u_settings u)) of
             None \<Rightarrow> (Inl SyntaxError, d)
           | Some parsed \<Rightarrow>
               (case run env (Update_user_settings (merge_theme parsed theme) (Id_eq (Num owner))) d of
                  Inl e \<Rightarrow> (Inl e, d)
                | Inr d1 \<Rightarrow> (Inr Success, d1))))"

definition catch_failure :: "outcome \<Rightarrow> outcome" where
  "catch_failure r = (case r of (Inl e, d) \<Rightarrow> (Inr Failure, d) | (Inr x, d) \<Rightarrow> (Inr x, d))"

definition changeTheme :: "env \<Rightarrow> event \<Rightarrow> db \<Rightarrow> outcome" where
  "changeTheme env ev d =
     (case owner_of ev of
        None \<Rightarrow> (Inr Failure, d)
      | Some owner \<Rightarrow>
          (case formData ev of
             Inl e \<Rightarrow> (Inl e, d)
           | Inr data \<Rightarrow>
               (let theme = theme_value data
                in case run env (Select_user_settings (Id_eq (Num owner))) d of
                     Inl e \<Rightarrow> (Inl e, d)
                   | Inr d1 \<Rightarrow>
                       catch_failure
                         (changeTheme_try env owner theme
                            (filter (\<lambda>u. matches (Id_eq (Num owner)) (u_id u)) (users d1)) d1))))"

subsection \<open>A concrete database, environment and requests\<close>

text \<open>Two bookmarks of different owners, one join row, one category, one user whose
  settings hold a language; an environment whose database accepts every statement.\<close>

definition sample_bookmark :: "int \<Rightarrow> int \<Rightarrow> int option \<Rightarrow> bookmark" where
  "sample_bookmark i owner opened =
     \<lparr>b_id = i, b_ownerId = owner, b_url = Some ''https://example.org/a'', b_author = None,
      b_categoryId = JNum 4, b_title = Some ''A'', b_contentHtml = None,
      b_contentPublishedDate = None, b_contentText = None, b_contentType = None,
      b_description = None, b_domain = Some ''example.org'', b_flagged = None,
      b_iconUrl = None, b_importance = Num 0, b_mainImageUrl = None, b_note = None,
      b_mainImageId = None, b_iconId = None, b_read = None,
      b_openedTimes = opened, b_openedLast = None\<rparr>"

definition sample_category :: category where
  "sample_category =
     \<lparr>c_id = 4, c_name = Some ''News'', c_slug = ''news'', c_description = None,
      c_icon = None, c_color = None, c_parent = JNull, c_archived = None, c_public = None,
      c_owner = 2, c_initial = True, c_created = 10, c_updated = 10\<rparr>"

definition quoted :: "string \<Rightarrow> string" where
  "quoted s = CHR 0x22 # s @ [CHR 0x22]"

definition sample_settings :: string where
  "sample_settings = ''{'' @ quoted ''lang'' @ '':'' @ quoted ''en'' @ ''}''"

definition sample_db :: db where
  "sample_db =
     \<lparr>bookmarks = [sample_bookmark 7 2 (Some 5), sample_bookmark 8 1 None],
      bookmarksToTags = [\<lparr>bookmarkId = 7, tagId = 3\<rparr>],
      categories = [sample_category],
      users = [\<lparr>u_id = 1, u_settings = Some sample_settings\<rparr>],
      tags = [], files = [], next_bookmark_id = 9, next_category_id = 5, executed = []\<rparr>"

fun number_ids :: "json \<Rightarrow> int list" where
  "number_ids (JArr xs) = concat (map (\<lambda>x. case x of JNum n \<Rightarrow> [n] | _ \<Rightarrow> []) xs)"
| "number_ids j = []"

definition sample_parse :: "string \<Rightarrow> json option" where
  "sample_parse s =
     (if s = ''null'' then Some JNull
      else if s = ''4'' then Some (JNum 4)
      else if s = ''[10,11]'' then Some (JArr [JNum 10, JNum 11])
      else if s = sample_settings then Some (JObj [(''lang'', JStr ''en'')])
      else None)"

definition sample_env :: env where
  "sample_env =
     \<lparr>json_parse = sample_parse,
      json_stringify = (\<lambda>j. ''{}''),
      prepareTags = (\<lambda>rows j owner. Inr (number_ids j, rows)),
      checkIfImageURL = (\<lambda>u. split_pop u = ''png''),
      createSlug = (\<lambda>t. Inr (to_string t)),
      fetch = (\<lambda>u. Inr []),
      storeFile = (\<lambda>fs bytes owner fileName. Inr ([21], fs)),
      rejects = (\<lambda>d s. None),
      clock = (\<lambda>k. 1000 + k),
      openedTimes_default = Some 0\<rparr>"

text \<open>A request of the user \<open>uid\<close> with the given form fields.\<close>

definition sample_event :: "int option \<Rightarrow> (string \<times> string) list \<Rightarrow> event" where
  "sample_event uid entries = \<lparr>locals_user_id = uid, formData = Inr (map_of entries)\<rparr>"

definition opened_event :: event where
  "opened_event = sample_event (Some 1) [(''id'', ''7'')]"

definition rename_event :: event where
  "rename_event = sample_event (Some 1) [(''id'', ''4''), (''name'', ''Tech''), (''parent'', ''null'')]"

definition retag_event :: event where
  "retag_event = sample_event (Some 1) [(''id'', ''7''), (''category'', ''4''), (''tags'', ''[10,11]'')]"

text \<open>Two requests of user 1 for a new bookmark with the tags 10 and 11: one whose main
  image is a PNG, one whose main image URL is a page.\<close>

definition add_event :: event where
  "add_event =
     sample_event (Some 1)
       [(''url'', ''https://example.org/b''), (''title'', ''B''), (''category'', ''4''),
        (''tags'', ''[10,11]''), (''main_image_url'', ''https://example.org/b.png'')]"

definition add_page_event :: event where
  "add_page_event =
     sample_event (Some 1)
       [(''url'', ''https://example.org/b''), (''title'', ''B''), (''category'', ''4''),
        (''tags'', ''[10,11]''), (''main_image_url'', ''https://example.org/b.html'')]"

text \<open>Environments whose database rejects every insert into the join table, or every
  update of the bookmark table.\<close>

definition join_rejecting_env :: env where
  "join_rejecting_env =
     sample_env\<lparr>rejects :=
       (\<lambda>d s. case s of Insert_bookmarksToTags b t \<Rightarrow> Some (DatabaseError ''join'') | _ \<Rightarrow> None)\<rparr>"

definition patch_rejecting_env :: env where
  "patch_rejecting_env =
     sample_env\<lparr>rejects :=
       (\<lambda>d s. case s of Update_bookmark a f \<Rightarrow> Some (DatabaseError ''patch'') | _ \<Rightarrow> None)\<rparr>"

definition theme_event :: event where
  "theme_event = sample_event (Some 1) [(''theme'', ''dark'')]"

section \<open>Properties\<close>

subsection \<open>Statements the database accepts\<close>

lemma run_select_openedTimes:
  "run env (Select_bookmark_openedTimes f) d = Inr d1 \<Longrightarrow>
   d1 = d\<lparr>executed := executed d @ [Select_bookmark_openedTimes f]\<rparr>"
  by (auto simp: run_def split: option.splits)

lemma run_update_bookmark:
  "run env (Update_bookmark assigns f) d = Inr d2 \<Longrightarrow>
   d2 = d\<lparr>bookmarks := map (\<lambda>b. if matches f (b_id b) then fold assign_bookmark assigns b else b) (bookmarks d),
        executed := executed d @ [Update_bookmark assigns f]\<rparr>"
  by (auto simp: run_def split: option.splits)

lemma sample_accepts:
  "run sample_env s d = Inr (effect sample_env s (d\<lparr>executed := executed d @ [s]\<rparr>))"
  by (simp add: run_def sample_env_def)

lemma parseInt10_7: "parseInt10 ''7'' = Num 7"
  by (simp add: parseInt10_def strip_sign_def parse_digits_def is_digit_def digit_value_def
      digits_value_def is_space_def)

subsection \<open>The opened-count patch\<close>

lemma updateIncreasedOpenedCount_accepted:
  assumes "owner_of ev = Some owner" and "formData ev = Inr data"
    and "run env (Select_bookmark_openedTimes (Id_eq (parseInt10 (to_string (data ''id''))))) d = Inr d1"
    and "filter (\<lambda>b. matches (Id_eq (parseInt10 (to_string (data ''id'')))) (b_id b)) (bookmarks d) = b # rest"
    and "run env (Update_bookmark [Set_openedTimes (increased (b_openedTimes b)), Set_openedLast (clock env 0)] All_rows) d1 = Inr d2"
  shows "updateIncreasedOpenedCount env ev d = (Inr Success, d2)"
  using assms run_select_openedTimes[OF assms(3)]
  by (simp add: updateIncreasedOpenedCount_def)

lemma opened_event_simps:
  "owner_of opened_event = Some 1"
  "formData opened_event = Inr (map_of [(''id'', ''7'')])"
  by (simp_all add: opened_event_def sample_event_def owner_of_def)

lemma opened_event_run:
  "updateIncreasedOpenedCount sample_env opened_event sample_db =
     (Inr Success,
      sample_db
        \<lparr>bookmarks :=
           [(sample_bookmark 7 2 (Some 5))\<lparr>b_openedLast := Some 1000\<rparr>,
            (sample_bookmark 8 1 (Some 5))\<lparr>b_openedLast := Some 1000\<rparr>],
         executed :=
           [Select_bookmark_openedTimes (Id_eq (Num 7)),
            Update_bookmark [Set_openedTimes 5, Set_openedLast 1000] All_rows]\<rparr>)"
  by (simp add: updateIncreasedOpenedCount_def opened_event_simps to_string_def parseInt10_7
      sample_accepts sample_db_def sample_bookmark_def increased_def nullish_def Let_def)
     (simp add: sample_env_def)

text \<open>
  Claim C1, as stated: with a stored \<open>openedTimes\<close> of 5 the value written is 1. It is
  not: user 1 opens bookmark 7, whose stored counter is 5, and the update that is
  executed writes 5.
\<close>

theorem C1_stored_five_writes_five:
  "map b_openedTimes (bookmarks sample_db) = [Some 5, None] \<and>
   last (executed (snd (updateIncreasedOpenedCount sample_env opened_event sample_db))) =
     Update_bookmark [Set_openedTimes 5, Set_openedLast 1000] All_rows \<and>
   last (executed (snd (updateIncreasedOpenedCount sample_env opened_event sample_db))) \<noteq>
     Update_bookmark [Set_openedTimes 1, Set_openedLast 1000] All_rows \<and>
   map b_openedTimes (bookmarks (snd (updateIncreasedOpenedCount sample_env opened_event sample_db))) =
     [Some 5, Some 5]"
  by (simp add: opened_event_run) (simp add: sample_db_def sample_bookmark_def)

text \<open>
  Claim C1, amended: for an authenticated owner, when the select finds the bookmark and
  the database accepts both statements, the value written for \<open>openedTimes\<close> is the
  stored value itself when that is not null (5 for a stored 5, so neither 6 nor 1), and
  1 when it is null: \<open>opened_times ?? 0 + 1\<close> is \<open>opened_times ?? 1\<close>.
\<close>

theorem C1_writes_stored_value:
  assumes "owner_of ev = Some owner" and "formData ev = Inr data"
    and "run env (Select_bookmark_openedTimes (Id_eq (parseInt10 (to_string (data ''id''))))) d = Inr d1"
    and "filter (\<lambda>b. matches (Id_eq (parseInt10 (to_string (data ''id'')))) (b_id b)) (bookmarks d) = b # rest"
    and "run env (Update_bookmark [Set_openedTimes (increased (b_openedTimes b)), Set_openedLast (clock env 0)] All_rows) d1 = Inr d2"
  shows "updateIncreasedOpenedCount env ev d = (Inr Success, d2) \<and>
         last (executed d2) =
           Update_bookmark
             [Set_openedTimes (case b_openedTimes b of None \<Rightarrow> 1 | Some n \<Rightarrow> n),
              Set_openedLast (clock env 0)] All_rows"
proof -
  have "increased (b_openedTimes b) = (case b_openedTimes b of None \<Rightarrow> 1 | Some n \<Rightarrow> n)"
    by (simp add: increased_def nullish_def)
  then show ?thesis
    using updateIncreasedOpenedCount_accepted[OF assms] run_update_bookmark[OF assms(5)]
    by simp
qed

lemma parseInt10_8: "parseInt10 ''8'' = Num 8"
  by (simp add: parseInt10_def strip_sign_def parse_digits_def is_digit_def digit_value_def
      digits_value_def is_space_def)

theorem C1_writes_stored_value_witness:
  "b_openedTimes (sample_bookmark 8 1 None) = None \<and>
   updateIncreasedOpenedCount sample_env (sample_event (Some 1) [(''id'', ''8'')]) sample_db =
     (Inr Success,
      sample_db
        \<lparr>bookmarks :=
           [(sample_bookmark 7 2 (Some 1))\<lparr>b_openedLast := Some 1000\<rparr>,
            (sample_bookmark 8 1 (Some 1))\<lparr>b_openedLast := Some 1000\<rparr>],
         executed :=
           [Select_bookmark_openedTimes (Id_eq (Num 8)),
            Update_bookmark [Set_openedTimes 1, Set_openedLast 1000] All_rows]\<rparr>)"
proof -
  let ?ev = "sample_event (Some 1) [(''id'', ''8'')]"
  have h1: "owner_of ?ev = Some 1"
    by (simp add: sample_event_def owner_of_def)
  have h2: "formData ?ev = Inr (map_of [(''id'', ''8'')])"
    by (simp add: sample_event_def)
  have h4: "filter (\<lambda>b. matches (Id_eq (parseInt10 (to_string (map_of [(''id'', ''8'')] ''id'')))) (b_id b))
              (bookmarks sample_db) = sample_bookmark 8 1 None # []"
    by (simp add: to_string_def parseInt10_8 sample_db_def sample_bookmark_def)
  show ?thesis
    using C1_writes_stored_value[OF h1 h2 sample_accepts h4 sample_accepts]
    by (simp add: to_string_def parseInt10_8 sample_db_def sample_bookmark_def increased_def nullish_def)
       (simp add: sample_env_def)
qed

text \<open>
  Claim C2: for an authenticated owner, the update that writes \<open>openedTimes\<close> and
  \<open>openedLast\<close> has no \<open>where\<close> clause: when the select finds the bookmark and the
  database accepts both statements, every row of the bookmark table, whatever its id,
  gets the counter computed from the identified bookmark and the new timestamp.
\<close>

theorem C2_update_touches_every_row:
  assumes "owner_of ev = Some owner" and "formData ev = Inr data"
    and "run env (Select_bookmark_openedTimes (Id_eq (parseInt10 (to_string (data ''id''))))) d = Inr d1"
    and "filter (\<lambda>b. matches (Id_eq (parseInt10 (to_string (data ''id'')))) (b_id b)) (bookmarks d) = b # rest"
    and "run env (Update_bookmark [Set_openedTimes (increased (b_openedTimes b)), Set_openedLast (clock env 0)] All_rows) d1 = Inr d2"
  shows "updateIncreasedOpenedCount env ev d = (Inr Success, d2) \<and>
         executed d2 =
           executed d @
             [Select_bookmark_openedTimes (Id_eq (parseInt10 (to_string (data ''id'')))),
              Update_bookmark
                [Set_openedTimes (increased (b_openedTimes b)), Set_openedLast (clock env 0)]
                All_rows] \<and>
         bookmarks d2 =
           map (\<lambda>r. r\<lparr>b_openedTimes := Some (increased (b_openedTimes b)),
                      b_openedLast := Some (clock env 0)\<rparr>) (bookmarks d)"
  using updateIncreasedOpenedCount_accepted[OF assms] run_update_bookmark[OF assms(5)]
    run_select_openedTimes[OF assms(3)]
  by simp

theorem C2_update_touches_every_row_witness:
  "map b_id (bookmarks sample_db) = [7, 8] \<and>
   map b_openedTimes (bookmarks sample_db) = [Some 5, None] \<and>
   map b_openedLast (bookmarks sample_db) = [None, None] \<and>
   map b_openedTimes (bookmarks (snd (updateIncreasedOpenedCount sample_env opened_event sample_db)))
     = [Some 5, Some 5] \<and>
   map b_openedLast (bookmarks (snd (updateIncreasedOpenedCount sample_env opened_event sample_db)))
     = [Some 1000, Some 1000]"
proof -
  have h4: "filter (\<lambda>b. matches (Id_eq (parseInt10 (to_string (map_of [(''id'', ''7'')] ''id'')))) (b_id b))
              (bookmarks sample_db) = sample_bookmark 7 2 (Some 5) # []"
    by (simp add: to_string_def parseInt10_7 sample_db_def sample_bookmark_def)
  show ?thesis
    using C2_update_touches_every_row[OF opened_event_simps sample_accepts h4 sample_accepts]
    by (simp add: to_string_def parseInt10_7 sample_db_def sample_bookmark_def increased_def nullish_def)
       (simp add: sample_env_def)
qed

subsection \<open>Requests without an authenticated owner\<close>

text \<open>Nine actions answer a request without an owner with
  \<open>{success: false, error: 'Unauthorized'}\<close> and leave the database as it is.\<close>

lemma unauthorized_bookmark_actions:
  assumes "owner_of ev = None"
  shows "addNewBookmark env ev d = (Inr Unauthorized, d)"
    and "deleteBookmark env ev d = (Inr Unauthorized, d)"
    and "updateBookmark env ev d = (Inr Unauthorized, d)"
    and "updateFlagged env ev d = (Inr Unauthorized, d)"
    and "updateImportance env ev d = (Inr Unauthorized, d)"
    and "updateRead env ev d = (Inr Unauthorized, d)"
    and "updateIncreasedOpenedCount env ev d = (Inr Unauthorized, d)"
  using assms
  by (simp_all add: addNewBookmark_def deleteBookmark_def updateBookmark_def updateFlagged_def
      updateImportance_def updateRead_def updateIncreasedOpenedCount_def)

lemma unauthorized_category_actions:
  assumes "owner_of ev = None"
  shows "addNewCategory env ev d = (Inr Unauthorized, d)"
    and "updateCategory env ev d = (Inr Unauthorized, d)"
  using assms by (simp_all add: addNewCategory_def updateCategory_def)

text \<open>
  Claim C3: every action answers a request without an authenticated owner with
  \<open>success: false\<close> and \<open>error: 'Unauthorized'\<close> and executes no statement. The code of
  \<open>deleteCategory\<close> and \<open>changeTheme\<close> returns \<open>{success: false}\<close> there, an object
  without the \<open>error\<close> property (the database is untouched, as the claim says).
\<close>

theorem C3_deleteCategory_changeTheme_omit_error:
  assumes "owner_of ev = None"
  shows "deleteCategory env ev d = (Inr Failure, d) \<and>
         changeTheme env ev d = (Inr Failure, d) \<and>
         success Failure = Some False \<and>
         error_property Failure = None"
  using assms by (simp add: deleteCategory_def changeTheme_def)

theorem C3_deleteCategory_changeTheme_omit_error_witness:
  "owner_of (sample_event None [(''id'', ''4'')]) = None \<and>
   deleteCategory sample_env (sample_event None [(''id'', ''4'')]) sample_db = (Inr Failure, sample_db) \<and>
   changeTheme sample_env (sample_event None [(''id'', ''4'')]) sample_db = (Inr Failure, sample_db) \<and>
   error_property Failure \<noteq> Some ''Unauthorized''"
proof -
  have h: "owner_of (sample_event None [(''id'', ''4'')]) = None"
    by (simp add: owner_of_def sample_event_def)
  show ?thesis
    using h C3_deleteCategory_changeTheme_omit_error[OF h, of sample_env sample_db]
    by simp
qed

subsection \<open>updateCategory\<close>

lemma assign_category_frame:
  "c_id (assign_category a c) = c_id c \<and>
   c_owner (assign_category a c) = c_owner c \<and>
   c_initial (assign_category a c) = c_initial c"
  by (cases a) simp_all

lemma fold_assign_category_frame:
  "c_id (fold assign_category assigns c) = c_id c \<and>
   c_owner (fold assign_category assigns c) = c_owner c \<and>
   c_initial (fold assign_category assigns c) = c_initial c"
  by (induction assigns arbitrary: c) (simp_all add: assign_category_frame)

lemma run_update_category_frame:
  assumes "run env (Update_category assigns f) d = Inr d1"
  shows "map (\<lambda>c. (c_id c, c_owner c, c_initial c)) (categories d1) =
         map (\<lambda>c. (c_id c, c_owner c, c_initial c)) (categories d)"
proof -
  from assms have "categories d1 =
      map (\<lambda>c. if matches f (c_id c) then fold assign_category assigns c else c) (categories d)"
    by (auto simp: run_def split: option.splits)
  then show ?thesis
    by (simp add: fold_assign_category_frame)
qed

lemma parseInt10_4: "parseInt10 ''4'' = Num 4"
  by (simp add: parseInt10_def strip_sign_def parse_digits_def is_digit_def digit_value_def
      digits_value_def is_space_def)

text \<open>
  Claim C9: \<open>updateCategory\<close> never modifies a category's owner or its initial flag:
  the written field set has neither, and after the action every row of the category
  table has the owner and the initial flag it had (and its key).
\<close>

theorem C9_updateCategory_keeps_owner_and_initial:
  "map (\<lambda>c. (c_id c, c_owner c, c_initial c)) (categories (snd (updateCategory env ev d))) =
   map (\<lambda>c. (c_id c, c_owner c, c_initial c)) (categories d)"
  by (auto simp: updateCategory_def Let_def run_update_category_frame
      split: option.splits sum.splits)

theorem C9_updateCategory_keeps_owner_and_initial_witness:
  "map (\<lambda>c. (c_id c, c_name c, c_owner c, c_initial c)) (categories sample_db) =
     [(4, Some ''News'', 2, True)] \<and>
   map c_name (categories (snd (updateCategory sample_env rename_event sample_db))) = [Some ''Tech''] \<and>
   map (\<lambda>c. (c_id c, c_owner c, c_initial c))
     (categories (snd (updateCategory sample_env rename_event sample_db))) = [(4, 2, True)]"
proof -
  have "owner_of rename_event = Some 1"
    by (simp add: rename_event_def sample_event_def owner_of_def)
  moreover have "sample_parse ''null'' = Some JNull"
    by (simp add: sample_parse_def)
  ultimately have "map c_name (categories (snd (updateCategory sample_env rename_event sample_db))) = [Some ''Tech'']"
    by (simp add: updateCategory_def run_def sample_env_def parse_field_def to_string_def
        parseInt10_4 rename_event_def sample_event_def Let_def sample_db_def sample_category_def)
  then show ?thesis
    using C9_updateCategory_keeps_owner_and_initial[of sample_env rename_event sample_db]
    by (simp add: sample_db_def sample_category_def)
qed

subsection \<open>deleteBookmark\<close>

text \<open>
  Claim C10: for every authenticated caller and every parsed id, \<open>deleteBookmark\<close>
  deletes the rows of the bookmark table with that id, whoever owns them, and returns
  \<open>{id, success: true}\<close> (the database accepting the statement): nothing between the
  authorization and the delete reads the row's owner.
\<close>

theorem C10_deleteBookmark_ignores_owner:
  assumes "owner_of ev = Some owner" and "formData ev = Inr data"
    and "rejects env d (Delete_bookmark (Id_eq (parseInt10 (to_string (data ''id''))))) = None"
  shows "deleteBookmark env ev d =
           (Inr (Success_id (parseInt10 (to_string (data ''id'')))),
            d\<lparr>bookmarks :=
                 filter (\<lambda>b. \<not> matches (Id_eq (parseInt10 (to_string (data ''id'')))) (b_id b))
                   (bookmarks d),
              executed := executed d @ [Delete_bookmark (Id_eq (parseInt10 (to_string (data ''id''))))]\<rparr>) \<and>
         (\<forall>n. parseInt10 (to_string (data ''id'')) = Num n \<longrightarrow>
            bookmarks (snd (deleteBookmark env ev d)) = filter (\<lambda>b. b_id b \<noteq> n) (bookmarks d))"
  using assms by (auto simp: deleteBookmark_def run_def Let_def)

theorem C10_deleteBookmark_ignores_owner_witness:
  "map (\<lambda>b. (b_id b, b_ownerId b)) (bookmarks sample_db) = [(7, 2), (8, 1)] \<and>
   owner_of opened_event = Some 1 \<and>
   fst (deleteBookmark sample_env opened_event sample_db) = Inr (Success_id (Num 7)) \<and>
   map (\<lambda>b. (b_id b, b_ownerId b)) (bookmarks (snd (deleteBookmark sample_env opened_event sample_db)))
     = [(8, 1)]"
proof -
  have h3: "rejects sample_env sample_db
      (Delete_bookmark (Id_eq (parseInt10 (to_string (map_of [(''id'', ''7'')] ''id''))))) = None"
    by (simp add: sample_env_def)
  show ?thesis
    using C10_deleteBookmark_ignores_owner[OF opened_event_simps h3]
    by (simp add: opened_event_simps to_string_def parseInt10_7 sample_db_def sample_bookmark_def)
qed

subsection \<open>The join table\<close>

lemma run_joins:
  assumes "run env s d = Inr d1"
  shows "bookmarksToTags d1 =
           bookmarksToTags d @
             (case s of Insert_bookmarksToTags b t \<Rightarrow> [\<lparr>bookmarkId = b, tagId = t\<rparr>] | _ \<Rightarrow> [])"
  using assms by (cases s) (auto simp: run_def split: option.splits)

lemma storeImage_joins:
  "bookmarksToTags (snd (storeImage env url title owner d)) = bookmarksToTags d"
  by (auto simp: storeImage_def Let_def split: option.splits sum.splits list.splits)

lemma insert_tags_extends:
  "\<exists>added. bookmarksToTags (snd (insert_tags env bid ts d)) = bookmarksToTags d @ added"
proof (induction ts arbitrary: d)
  case Nil
  then show ?case by simp
next
  case (Cons t ts)
  show ?case
  proof (cases "run env (Insert_bookmarksToTags bid t) d")
    case (Inl e)
    obtain e' d' where r: "insert_tags env bid ts d = (e', d')"
      by (cases "insert_tags env bid ts d")
    with Inl Cons.IH[of d] show ?thesis
      by simp
  next
    case (Inr d1)
    from run_joins[OF Inr] Cons.IH[of d1] Inr show ?thesis
      by auto
  qed
qed

lemma updateBookmark_images_joins:
  "bookmarksToTags (snd (updateBookmark_images env owner m i title bookmark d)) = bookmarksToTags d"
proof -
  have patch: "\<And>a b bid d2 d3. run env (image_patch a b bid) d2 = Inr d3 \<Longrightarrow>
      bookmarksToTags d3 = bookmarksToTags d2"
    by (auto simp: image_patch_def dest: run_joins)
  obtain r1 d1 where s1: "storeImage env m title owner d = (r1, d1)"
    by (cases "storeImage env m title owner d")
  obtain r2 d2 where s2: "storeImage env i title owner d1 = (r2, d2)"
    by (cases "storeImage env i title owner d1")
  have j1: "bookmarksToTags d1 = bookmarksToTags d"
    using storeImage_joins[of env m title owner d] s1 by simp
  have j2: "bookmarksToTags d2 = bookmarksToTags d1"
    using storeImage_joins[of env i title owner d1] s2 by simp
  show ?thesis
    using s1 s2 j1 j2
    by (auto simp: updateBookmark_images_def split: sum.splits option.splits dest: patch)
qed

lemma updateBookmark_tags_extends:
  "\<exists>added. bookmarksToTags (snd (updateBookmark_tags env bookmark tagIds d)) = bookmarksToTags d @ added"
  by (cases bookmark) (simp_all add: updateBookmark_tags_def insert_tags_extends)

lemma updateBookmark_body_extends:
  "\<exists>added. bookmarksToTags (snd (updateBookmark_body env owner data d)) = bookmarksToTags d @ added"
proof -
  { fix tagIds tag_rows assigns f d2
    assume r: "run env (Update_bookmark assigns f) (d\<lparr>tags := tag_rows\<rparr>) = Inr d2"
    fix bookmark
    obtain e3 d3 where t: "updateBookmark_tags env bookmark tagIds d2 = (e3, d3)"
      by (cases "updateBookmark_tags env bookmark tagIds d2")
    from run_joins[OF r] have j2: "bookmarksToTags d2 = bookmarksToTags d" by simp
    from updateBookmark_tags_extends[of env bookmark tagIds d2] t j2
    obtain added where j3: "bookmarksToTags d3 = bookmarksToTags d @ added" by auto
    have "\<exists>added. bookmarksToTags
             (snd (case updateBookmark_tags env bookmark tagIds d2 of
                     (Some e, d3) \<Rightarrow> (Inl e, d3)
                   | (None, d3) \<Rightarrow>
                       updateBookmark_images env owner (data ''main_image_url'')
                         (data ''icon_url'') (data ''title'') bookmark d3))
           = bookmarksToTags d @ added"
      using t j3 by (cases e3) (simp_all add: updateBookmark_images_joins)
  }
  then show ?thesis
    by (auto simp: updateBookmark_body_def Let_def split: sum.splits prod.splits simp del: split_paired_Ex)
qed


lemma parseInt_0: "parseInt ''0'' = Num 0"
  by (simp add: parseInt_def strip_sign_def parse_digits_def is_digit_def digit_value_def
      digits_value_def is_space_def)

lemma sample_parse_simps:
  "sample_parse ''null'' = Some JNull"
  "sample_parse ''4'' = Some (JNum 4)"
  "sample_parse ''[10,11]'' = Some (JArr [JNum 10, JNum 11])"
  by (simp_all add: sample_parse_def)

text \<open>
  Claim C5: \<open>updateBookmark\<close> only adds join rows. Whatever the request and whatever
  the environment does, the join table afterwards is the join table before followed by
  the added rows: every association that existed still exists.
\<close>

theorem C5_updateBookmark_keeps_associations:
  "(\<exists>added. bookmarksToTags (snd (updateBookmark env ev d)) = bookmarksToTags d @ added) \<and>
   set (bookmarksToTags d) \<subseteq> set (bookmarksToTags (snd (updateBookmark env ev d)))"
proof -
  have "\<exists>added. bookmarksToTags (snd (updateBookmark env ev d)) = bookmarksToTags d @ added"
    by (auto simp: updateBookmark_def updateBookmark_body_extends split: option.splits sum.splits)
  then show ?thesis by auto
qed

theorem C5_updateBookmark_keeps_associations_witness:
  "bookmarksToTags sample_db = [\<lparr>bookmarkId = 7, tagId = 3\<rparr>] \<and>
   bookmarksToTags (snd (updateBookmark sample_env retag_event sample_db)) =
     [\<lparr>bookmarkId = 7, tagId = 3\<rparr>, \<lparr>bookmarkId = 7, tagId = 10\<rparr>, \<lparr>bookmarkId = 7, tagId = 11\<rparr>] \<and>
   set (bookmarksToTags sample_db)
     \<subseteq> set (bookmarksToTags (snd (updateBookmark sample_env retag_event sample_db)))"
proof -
  have "owner_of retag_event = Some 1"
    by (simp add: retag_event_def sample_event_def owner_of_def)
  then have "bookmarksToTags (snd (updateBookmark sample_env retag_event sample_db)) =
     [\<lparr>bookmarkId = 7, tagId = 3\<rparr>, \<lparr>bookmarkId = 7, tagId = 10\<rparr>, \<lparr>bookmarkId = 7, tagId = 11\<rparr>]"
    by (simp add: updateBookmark_def updateBookmark_body_def updateBookmark_tags_def
        updateBookmark_images_def storeImage_def truthy_id_def first_row_def
        retag_event_def sample_event_def parse_field_def parse_tags_def truthy_str_def
        to_string_def or_zero_def parseInt10_7 parseInt_0 sample_parse_simps
        run_def sample_env_def sample_db_def sample_bookmark_def Let_def
        updateBookmark_data_def toggle_def owner_of_def)
  moreover have "set (bookmarksToTags sample_db)
     \<subseteq> set (bookmarksToTags (snd (updateBookmark sample_env retag_event sample_db)))"
    using C5_updateBookmark_keeps_associations[of sample_env retag_event sample_db]
    by (rule conjunct2)
  ultimately show ?thesis
    by (simp add: sample_db_def)
qed

subsection \<open>addNewBookmark\<close>

lemma insert_tags_accepted:
  assumes "\<And>d' t. t \<in> set ts \<Longrightarrow> rejects env d' (Insert_bookmarksToTags bid t) = None"
  shows "insert_tags env bid ts d =
           (None,
            d\<lparr>bookmarksToTags := bookmarksToTags d @ map (\<lambda>t. \<lparr>bookmarkId = bid, tagId = t\<rparr>) ts,
              executed := executed d @ map (Insert_bookmarksToTags bid) ts\<rparr>)"
  using assms
proof (induction ts arbitrary: d)
  case Nil
  then show ?case by simp
next
  case (Cons t ts)
  have "rejects env d (Insert_bookmarksToTags bid t) = None"
    using Cons.prems by simp
  then have r: "run env (Insert_bookmarksToTags bid t) d =
      Inr (d\<lparr>bookmarksToTags := bookmarksToTags d @ [\<lparr>bookmarkId = bid, tagId = t\<rparr>],
             executed := executed d @ [Insert_bookmarksToTags bid t]\<rparr>)"
    by (simp add: run_def)
  show ?case
    using Cons.IH[of "d\<lparr>bookmarksToTags := bookmarksToTags d @ [\<lparr>bookmarkId = bid, tagId = t\<rparr>],
             executed := executed d @ [Insert_bookmarksToTags bid t]\<rparr>"] Cons.prems r
    by simp
qed

lemma insert_bookmark_result:
  assumes "insert_bookmark env v d = Inr (bookmark, d1)"
  shows "bookmark = new_bookmark env (next_bookmark_id d) v"
    and "d1 = d\<lparr>bookmarks := bookmarks d @ [bookmark],
                next_bookmark_id := next_bookmark_id d + 1,
                executed := executed d @ [Insert_bookmark v]\<rparr>"
  using assms by (auto simp: insert_bookmark_def run_def split: option.splits)

lemma addNewBookmark_images_joins:
  "bookmarksToTags (snd (addNewBookmark_images env owner m i title bookmark d)) = bookmarksToTags d"
proof -
  have patch: "\<And>a b bid d2 d3. run env (image_patch a b bid) d2 = Inr d3 \<Longrightarrow>
      bookmarksToTags d3 = bookmarksToTags d2"
    by (auto simp: image_patch_def dest: run_joins)
  obtain r1 d1 where s1: "storeImage env m title owner d = (r1, d1)"
    by (cases "storeImage env m title owner d")
  obtain r2 d2 where s2: "storeImage env i title owner d1 = (r2, d2)"
    by (cases "storeImage env i title owner d1")
  have j1: "bookmarksToTags d1 = bookmarksToTags d"
    using storeImage_joins[of env m title owner d] s1 by simp
  have j2: "bookmarksToTags d2 = bookmarksToTags d1"
    using storeImage_joins[of env i title owner d1] s2 by simp
  show ?thesis
    using s1 s2 j1 j2
    by (auto simp: addNewBookmark_images_def split: sum.splits dest: patch)
qed

lemma snd_catch_pb: "snd (catch_pb r) = snd r"
  by (cases r) (auto simp: catch_pb_def split: sum.splits)

lemma addNewBookmark_reaches_insert:
  assumes "owner_of ev = Some owner" and "formData ev = Inr data"
    and "parse_field env data ''category'' = Inr category"
    and "parse_tags env data = Inr tags_json"
    and "prepareTags env (tags d) tags_json owner = Inr (tagIds, tag_rows)"
  shows "addNewBookmark env ev d =
           catch_pb (addNewBookmark_insert env owner tagIds
                       (addNewBookmark_data env owner data category) (d\<lparr>tags := tag_rows\<rparr>))"
  using assms by (simp add: addNewBookmark_def addNewBookmark_try_def)

lemma addNewBookmark_reaches_images:
  assumes "owner_of ev = Some owner" and "formData ev = Inr data"
    and "parse_field env data ''category'' = Inr category"
    and "parse_tags env data = Inr tags_json"
    and "prepareTags env (tags d) tags_json owner = Inr (tagIds, tag_rows)"
    and "insert_bookmark env (addNewBookmark_data env owner data category) (d\<lparr>tags := tag_rows\<rparr>)
           = Inr (bookmark, d1)"
    and "b_id bookmark \<noteq> 0"
    and "insert_tags env (b_id bookmark) tagIds d1 = (None, d2)"
  shows "addNewBookmark env ev d =
           catch_pb (addNewBookmark_images env owner (data ''main_image_url'') (data ''icon_url'')
                       (data ''title'') bookmark d2)"
  using assms(6-8)
  by (simp add: addNewBookmark_reaches_insert[OF assms(1-5)] addNewBookmark_insert_def
      addNewBookmark_data_def)

text \<open>
  Claim C4: for an authenticated owner, when the resolved tag-id list has N distinct
  elements, the bookmark insert succeeds (with an id that is not 0) and the database
  rejects none of the join inserts, exactly N rows are added to the join table, one per
  tag id, each pairing the new bookmark's id with that tag id.
\<close>

theorem C4_one_join_row_per_tag:
  assumes "owner_of ev = Some owner" and "formData ev = Inr data"
    and "parse_field env data ''category'' = Inr category"
    and "parse_tags env data = Inr tags_json"
    and "prepareTags env (tags d) tags_json owner = Inr (tagIds, tag_rows)"
    and "distinct tagIds"
    and "insert_bookmark env (addNewBookmark_data env owner data category) (d\<lparr>tags := tag_rows\<rparr>)
           = Inr (bookmark, d1)"
    and "b_id bookmark \<noteq> 0"
    and "\<And>d' t. t \<in> set tagIds \<Longrightarrow> rejects env d' (Insert_bookmarksToTags (b_id bookmark) t) = None"
  shows "bookmarksToTags (snd (addNewBookmark env ev d)) =
           bookmarksToTags d @ map (\<lambda>t. \<lparr>bookmarkId = b_id bookmark, tagId = t\<rparr>) tagIds \<and>
         distinct (map (\<lambda>t. \<lparr>bookmarkId = b_id bookmark, tagId = t\<rparr>) tagIds) \<and>
         length (map (\<lambda>t. \<lparr>bookmarkId = b_id bookmark, tagId = t\<rparr>) tagIds) = card (set tagIds)"
proof -
  let ?d2 = "d1\<lparr>bookmarksToTags :=
                  bookmarksToTags d1 @ map (\<lambda>t. \<lparr>bookmarkId = b_id bookmark, tagId = t\<rparr>) tagIds,
                executed := executed d1 @ map (Insert_bookmarksToTags (b_id bookmark)) tagIds\<rparr>"
  have t: "insert_tags env (b_id bookmark) tagIds d1 = (None, ?d2)"
    using assms(9) by (rule insert_tags_accepted)
  have "bookmarksToTags d1 = bookmarksToTags d"
    using insert_bookmark_result(2)[OF assms(7)] by simp
  then have "bookmarksToTags (snd (addNewBookmark env ev d)) =
      bookmarksToTags d @ map (\<lambda>t. \<lparr>bookmarkId = b_id bookmark, tagId = t\<rparr>) tagIds"
    by (simp add: addNewBookmark_reaches_images[OF assms(1-5) assms(7,8) t] snd_catch_pb
        addNewBookmark_images_joins)
  moreover have "inj_on (\<lambda>t. \<lparr>bookmarkId = b_id bookmark, tagId = t\<rparr>) (set tagIds)"
    by (simp add: inj_on_def)
  ultimately show ?thesis
    using assms(6) by (simp add: distinct_map distinct_card)
qed


lemma insert_bookmark_accepted:
  assumes "rejects env d (Insert_bookmark v) = None"
  shows "insert_bookmark env v d =
           Inr (new_bookmark env (next_bookmark_id d) v,
                d\<lparr>bookmarks := bookmarks d @ [new_bookmark env (next_bookmark_id d) v],
                  next_bookmark_id := next_bookmark_id d + 1,
                  executed := executed d @ [Insert_bookmark v]\<rparr>)"
  using assms by (simp add: insert_bookmark_def run_def)

lemma add_event_simps:
  "owner_of add_event = Some 1"
  "formData add_event =
     Inr (map_of [(''url'', ''https://example.org/b''), (''title'', ''B''), (''category'', ''4''),
        (''tags'', ''[10,11]''), (''main_image_url'', ''https://example.org/b.png'')])"
  by (simp_all add: add_event_def sample_event_def owner_of_def)

lemma sample_env_simps:
  "json_parse sample_env = sample_parse"
  "prepareTags sample_env rows j owner = Inr (number_ids j, rows)"
  "rejects sample_env d s = None"
  "checkIfImageURL sample_env u = (split_pop u = ''png'')"
  by (simp_all add: sample_env_def)

theorem C4_one_join_row_per_tag_witness:
  "bookmarksToTags sample_db = [\<lparr>bookmarkId = 7, tagId = 3\<rparr>] \<and>
   bookmarksToTags (snd (addNewBookmark sample_env add_event sample_db)) =
     [\<lparr>bookmarkId = 7, tagId = 3\<rparr>, \<lparr>bookmarkId = 9, tagId = 10\<rparr>, \<lparr>bookmarkId = 9, tagId = 11\<rparr>]"
proof -
  let ?data = "map_of [(''url'', ''https://example.org/b''), (''title'', ''B''), (''category'', ''4''),
        (''tags'', ''[10,11]''), (''main_image_url'', ''https://example.org/b.png'')]"
  have h3: "parse_field sample_env ?data ''category'' = Inr (JNum 4)"
    by (simp add: parse_field_def to_string_def sample_env_simps sample_parse_simps)
  have h4: "parse_tags sample_env ?data = Inr (JArr [JNum 10, JNum 11])"
    by (simp add: parse_tags_def truthy_str_def parse_field_def to_string_def sample_env_simps
        sample_parse_simps)
  have h5: "prepareTags sample_env (tags sample_db) (JArr [JNum 10, JNum 11]) 1 = Inr ([10, 11], [])"
    by (simp add: sample_env_simps sample_db_def)
  have h6: "distinct [10, 11 :: int]"
    by simp
  have h7: "rejects sample_env (sample_db\<lparr>tags := []\<rparr>)
      (Insert_bookmark (addNewBookmark_data sample_env 1 ?data (JNum 4))) = None"
    by (simp only: sample_env_simps)
  have h8: "b_id (new_bookmark sample_env (next_bookmark_id (sample_db\<lparr>tags := []\<rparr>))
      (addNewBookmark_data sample_env 1 ?data (JNum 4))) \<noteq> 0"
    by (simp add: new_bookmark_def sample_db_def)
  have h9: "\<And>d' t. t \<in> set [10, 11] \<Longrightarrow>
      rejects sample_env d' (Insert_bookmarksToTags (b_id (new_bookmark sample_env
        (next_bookmark_id (sample_db\<lparr>tags := []\<rparr>))
        (addNewBookmark_data sample_env 1 ?data (JNum 4)))) t) = None"
    by (simp only: sample_env_simps)
  show ?thesis
    using C4_one_join_row_per_tag[OF add_event_simps h3 h4 h5 h6 insert_bookmark_accepted[OF h7] h8 h9]
    by (simp add: new_bookmark_def sample_db_def)
qed

subsection \<open>Images\<close>

lemma storeImage_no_image:
  assumes "no_image env url"
  shows "storeImage env url title owner d = (Inr None, d)"
  using assms by (auto simp: no_image_def storeImage_def split: option.splits)

lemma addNewBookmark_images_skipped:
  assumes "no_image env m" and "no_image env i"
  shows "addNewBookmark_images env owner m i title bookmark d = (Inr (Success_bookmark (Some bookmark)), d)"
  by (simp add: addNewBookmark_images_def storeImage_no_image[OF assms(1)]
      storeImage_no_image[OF assms(2)] truthy_id_def)

text \<open>
  Claim C7: in \<open>addNewBookmark\<close> for an authenticated owner, a main image URL that is
  absent or fails the image-URL check makes \<open>storeImage\<close> return no id without doing
  anything; when neither the main image nor the icon is archived, the statements
  executed are the insert and the join inserts, with no image patch after them, and the
  new bookmark, the last row of the table, has a null main image reference.
\<close>

theorem C7_no_image_no_patch:
  assumes "owner_of ev = Some owner" and "formData ev = Inr data"
    and "parse_field env data ''category'' = Inr category"
    and "parse_tags env data = Inr tags_json"
    and "prepareTags env (tags d) tags_json owner = Inr (tagIds, tag_rows)"
    and "insert_bookmark env (addNewBookmark_data env owner data category) (d\<lparr>tags := tag_rows\<rparr>)
           = Inr (bookmark, d1)"
    and "b_id bookmark \<noteq> 0"
    and "\<And>d' t. t \<in> set tagIds \<Longrightarrow> rejects env d' (Insert_bookmarksToTags (b_id bookmark) t) = None"
    and "no_image env (data ''main_image_url'')"
    and "no_image env (data ''icon_url'')"
  shows "storeImage env (data ''main_image_url'') (data ''title'') owner d' = (Inr None, d') \<and>
         fst (addNewBookmark env ev d) = Inr (Success_bookmark (Some bookmark)) \<and>
         executed (snd (addNewBookmark env ev d)) =
           executed d @
             Insert_bookmark (addNewBookmark_data env owner data category) #
             map (Insert_bookmarksToTags (b_id bookmark)) tagIds \<and>
         bookmarks (snd (addNewBookmark env ev d)) = bookmarks d @ [bookmark] \<and>
         b_mainImageId bookmark = None"
proof -
  let ?d2 = "d1\<lparr>bookmarksToTags :=
                  bookmarksToTags d1 @ map (\<lambda>t. \<lparr>bookmarkId = b_id bookmark, tagId = t\<rparr>) tagIds,
                executed := executed d1 @ map (Insert_bookmarksToTags (b_id bookmark)) tagIds\<rparr>"
  have t: "insert_tags env (b_id bookmark) tagIds d1 = (None, ?d2)"
    using assms(8) by (rule insert_tags_accepted)
  have run: "addNewBookmark env ev d = (Inr (Success_bookmark (Some bookmark)), ?d2)"
    by (simp add: addNewBookmark_reaches_images[OF assms(1-7) t]
        addNewBookmark_images_skipped[OF assms(9,10)] catch_pb_def)
  have b: "bookmark = new_bookmark env (next_bookmark_id (d\<lparr>tags := tag_rows\<rparr>))
             (addNewBookmark_data env owner data category)"
    by (rule insert_bookmark_result(1)[OF assms(6)])
  have "b_mainImageId bookmark = None"
    by (simp add: b new_bookmark_def)
  then show ?thesis
    using run insert_bookmark_result(2)[OF assms(6)] storeImage_no_image[OF assms(9)]
    by simp
qed

lemma add_page_event_simps:
  "owner_of add_page_event = Some 1"
  "formData add_page_event =
     Inr (map_of [(''url'', ''https://example.org/b''), (''title'', ''B''), (''category'', ''4''),
        (''tags'', ''[10,11]''), (''main_image_url'', ''https://example.org/b.html'')])"
  by (simp_all add: add_page_event_def sample_event_def owner_of_def)

theorem C7_no_image_no_patch_witness:
  "fst (addNewBookmark sample_env add_page_event sample_db) =
     Inr (Success_bookmark (Some (new_bookmark sample_env 9
       (addNewBookmark_data sample_env 1 (map_of [(''url'', ''https://example.org/b''),
          (''title'', ''B''), (''category'', ''4''), (''tags'', ''[10,11]''),
          (''main_image_url'', ''https://example.org/b.html'')]) (JNum 4))))) \<and>
   map is_mutation (executed (snd (addNewBookmark sample_env add_page_event sample_db))) =
     [True, True, True] \<and>
   drop 1 (executed (snd (addNewBookmark sample_env add_page_event sample_db))) =
     [Insert_bookmarksToTags 9 10, Insert_bookmarksToTags 9 11] \<and>
   map (\<lambda>b. (b_id b, b_mainImageUrl b, b_mainImageId b))
     (bookmarks (snd (addNewBookmark sample_env add_page_event sample_db))) =
     [(7, None, None), (8, None, None), (9, Some ''https://example.org/b.html'', None)]"
proof -
  let ?data = "map_of [(''url'', ''https://example.org/b''), (''title'', ''B''), (''category'', ''4''),
        (''tags'', ''[10,11]''), (''main_image_url'', ''https://example.org/b.html'')]"
  have h3: "parse_field sample_env ?data ''category'' = Inr (JNum 4)"
    by (simp add: parse_field_def to_string_def sample_env_simps sample_parse_simps)
  have h4: "parse_tags sample_env ?data = Inr (JArr [JNum 10, JNum 11])"
    by (simp add: parse_tags_def truthy_str_def parse_field_def to_string_def sample_env_simps
        sample_parse_simps)
  have h5: "prepareTags sample_env (tags sample_db) (JArr [JNum 10, JNum 11]) 1 = Inr ([10, 11], [])"
    by (simp add: sample_env_simps sample_db_def)
  have h6: "rejects sample_env (sample_db\<lparr>tags := []\<rparr>)
      (Insert_bookmark (addNewBookmark_data sample_env 1 ?data (JNum 4))) = None"
    by (simp only: sample_env_simps)
  have h7: "b_id (new_bookmark sample_env (next_bookmark_id (sample_db\<lparr>tags := []\<rparr>))
      (addNewBookmark_data sample_env 1 ?data (JNum 4))) \<noteq> 0"
    by (simp add: new_bookmark_def sample_db_def)
  have h8: "\<And>d' t. t \<in> set [10, 11] \<Longrightarrow>
      rejects sample_env d' (Insert_bookmarksToTags (b_id (new_bookmark sample_env
        (next_bookmark_id (sample_db\<lparr>tags := []\<rparr>))
        (addNewBookmark_data sample_env 1 ?data (JNum 4)))) t) = None"
    by (simp only: sample_env_simps)
  have h9: "no_image sample_env (?data ''main_image_url'')"
    by (simp add: no_image_def sample_env_simps split_pop_def)
  have h10: "no_image sample_env (?data ''icon_url'')"
    by (simp add: no_image_def)
  have n: "next_bookmark_id (sample_db\<lparr>tags := []\<rparr>) = 9"
    by (simp add: sample_db_def)
  show ?thesis
    using C7_no_image_no_patch[OF add_page_event_simps h3 h4 h5 insert_bookmark_accepted[OF h6] h7 h8 h9 h10]
    unfolding n
    by (simp add: new_bookmark_def sample_db_def sample_bookmark_def addNewBookmark_data_def)
qed

subsection \<open>Errors in addNewBookmark\<close>

lemma catch_pb_simps:
  "catch_pb (Inl e, d) = (Inr (PBError (Caught e)), d)"
  "catch_pb (Inr r, d) = (Inr r, d)"
  by (simp_all add: catch_pb_def)

lemma catch_pb_returns: "\<exists>r. fst (catch_pb x) = Inr r"
  by (cases x) (auto simp: catch_pb_def split: sum.splits)

lemma addNewBookmark_returns:
  assumes "owner_of ev = Some owner" and "formData ev = Inr data"
  shows "\<exists>r. fst (addNewBookmark env ev d) = Inr r"
  using assms by (simp add: addNewBookmark_def catch_pb_returns)

lemma addNewBookmark_parse_error:
  assumes "owner_of ev = Some owner" and "formData ev = Inr data"
    and "parse_field env data ''category'' = Inl e \<or>
         (parse_field env data ''category'' = Inr category \<and> parse_tags env data = Inl e)"
  shows "addNewBookmark env ev d = (Inr (PBError (Caught e)), d)"
  using assms by (auto simp: addNewBookmark_def addNewBookmark_try_def catch_pb_simps)

lemma addNewBookmark_insert_rejected:
  assumes "owner_of ev = Some owner" and "formData ev = Inr data"
    and "parse_field env data ''category'' = Inr category"
    and "parse_tags env data = Inr tags_json"
    and "prepareTags env (tags d) tags_json owner = Inr (tagIds, tag_rows)"
    and "rejects env (d\<lparr>tags := tag_rows\<rparr>)
           (Insert_bookmark (addNewBookmark_data env owner data category)) = Some e"
  shows "addNewBookmark env ev d = (Inr (PBError (Caught e)), d\<lparr>tags := tag_rows\<rparr>)"
  using assms(6)
  by (simp add: addNewBookmark_reaches_insert[OF assms(1-5)] addNewBookmark_insert_def
      insert_bookmark_def run_def catch_pb_simps)

lemma addNewBookmark_join_rejected:
  assumes "owner_of ev = Some owner" and "formData ev = Inr data"
    and "parse_field env data ''category'' = Inr category"
    and "parse_tags env data = Inr tags_json"
    and "prepareTags env (tags d) tags_json owner = Inr (tagIds, tag_rows)"
    and "insert_bookmark env (addNewBookmark_data env owner data category) (d\<lparr>tags := tag_rows\<rparr>)
           = Inr (bookmark, d1)"
    and "b_id bookmark \<noteq> 0"
    and "fst (insert_tags env (b_id bookmark) tagIds d1) = Some e"
  shows "fst (addNewBookmark env ev d) = Inr (PBError (Caught e))"
proof -
  obtain d2 where "insert_tags env (b_id bookmark) tagIds d1 = (Some e, d2)"
    using assms(8) by (cases "insert_tags env (b_id bookmark) tagIds d1") simp
  then show ?thesis
    using assms(6,7)
    by (simp add: addNewBookmark_reaches_insert[OF assms(1-5)] addNewBookmark_insert_def
        catch_pb_simps)
qed

lemma addNewBookmark_patch_rejected:
  assumes "owner_of ev = Some owner" and "formData ev = Inr data"
    and "parse_field env data ''category'' = Inr category"
    and "parse_tags env data = Inr tags_json"
    and "prepareTags env (tags d) tags_json owner = Inr (tagIds, tag_rows)"
    and "insert_bookmark env (addNewBookmark_data env owner data category) (d\<lparr>tags := tag_rows\<rparr>)
           = Inr (bookmark, d1)"
    and "b_id bookmark \<noteq> 0"
    and "insert_tags env (b_id bookmark) tagIds d1 = (None, d2)"
    and "storeImage env (data ''main_image_url'') (data ''title'') owner d2 = (Inr mainImageId, d3)"
    and "storeImage env (data ''icon_url'') (data ''title'') owner d3 = (Inr iconId, d4)"
    and "truthy_id mainImageId \<or> truthy_id iconId"
    and "rejects env d4 (image_patch mainImageId iconId (b_id bookmark)) = Some e"
  shows "addNewBookmark env ev d = (Inr (PBError (Caught e)), d4)"
  using assms(9-12)
  by (auto simp: addNewBookmark_reaches_images[OF assms(1-8)] addNewBookmark_images_def
      run_def catch_pb_simps)

text \<open>
  Claim C6, as stated: errors thrown during the tag-join insertion or the image patch
  of \<open>addNewBookmark\<close> are not caught. They are: both statements are awaited inside the
  \<open>try\<close>. With a database that rejects the join inserts, and with one that rejects the
  image patch, the action returns the value of \<open>handlePBError\<close>; its promise does not
  reject.
\<close>

theorem C6_join_and_patch_errors_are_caught:
  "fst (addNewBookmark join_rejecting_env add_event sample_db) =
     Inr (PBError (Caught (DatabaseError ''join''))) \<and>
   fst (addNewBookmark join_rejecting_env add_event sample_db) \<noteq> Inl (DatabaseError ''join'') \<and>
   fst (addNewBookmark patch_rejecting_env add_event sample_db) =
     Inr (PBError (Caught (DatabaseError ''patch''))) \<and>
   fst (addNewBookmark patch_rejecting_env add_event sample_db) \<noteq> Inl (DatabaseError ''patch'')"
  by (simp add: addNewBookmark_def addNewBookmark_try_def addNewBookmark_insert_def
      addNewBookmark_images_def addNewBookmark_data_def insert_bookmark_def new_bookmark_def
      storeImage_def image_patch_def set_defined_def truthy_id_def split_pop_def
      add_event_simps parse_field_def parse_tags_def truthy_str_def to_string_def
      sample_parse_simps run_def join_rejecting_env_def patch_rejecting_env_def sample_env_def
      sample_db_def catch_pb_def Let_def)

text \<open>
  Claim C6, amended: for an authenticated owner whose form data has been read, every
  error thrown in \<open>addNewBookmark\<close> is caught and handed to \<open>handlePBError\<close>, whose value
  the action returns: an error of the field parsing or of the initial insert, as the
  claim says, and equally an error of a tag-join insert or of the image patch. The
  action's promise never rejects there.
\<close>

theorem C6_errors_in_try_are_caught:
  assumes "owner_of ev = Some owner" and "formData ev = Inr data"
  shows "(\<exists>r. fst (addNewBookmark env ev d) = Inr r) \<and>
    (parse_field env data ''category'' = Inl e \<or>
       (parse_field env data ''category'' = Inr category \<and> parse_tags env data = Inl e)
     \<longrightarrow> addNewBookmark env ev d = (Inr (PBError (Caught e)), d)) \<and>
    (parse_field env data ''category'' = Inr category \<and>
     parse_tags env data = Inr tags_json \<and>
     prepareTags env (tags d) tags_json owner = Inr (tagIds, tag_rows)
     \<longrightarrow>
       (rejects env (d\<lparr>tags := tag_rows\<rparr>)
          (Insert_bookmark (addNewBookmark_data env owner data category)) = Some e
        \<longrightarrow> addNewBookmark env ev d = (Inr (PBError (Caught e)), d\<lparr>tags := tag_rows\<rparr>)) \<and>
       (insert_bookmark env (addNewBookmark_data env owner data category) (d\<lparr>tags := tag_rows\<rparr>)
          = Inr (bookmark, d1) \<and>
        b_id bookmark \<noteq> 0
        \<longrightarrow>
          (fst (insert_tags env (b_id bookmark) tagIds d1) = Some e
           \<longrightarrow> fst (addNewBookmark env ev d) = Inr (PBError (Caught e))) \<and>
          (insert_tags env (b_id bookmark) tagIds d1 = (None, d2) \<and>
           storeImage env (data ''main_image_url'') (data ''title'') owner d2 = (Inr mainImageId, d3) \<and>
           storeImage env (data ''icon_url'') (data ''title'') owner d3 = (Inr iconId, d4) \<and>
           (truthy_id mainImageId \<or> truthy_id iconId) \<and>
           rejects env d4 (image_patch mainImageId iconId (b_id bookmark)) = Some e
           \<longrightarrow> addNewBookmark env ev d = (Inr (PBError (Caught e)), d4))))"
proof (intro conjI impI)
  show "\<exists>r. fst (addNewBookmark env ev d) = Inr r"
    by (rule addNewBookmark_returns[OF assms])
next
  assume "parse_field env data ''category'' = Inl e \<or>
       (parse_field env data ''category'' = Inr category \<and> parse_tags env data = Inl e)"
  then show "addNewBookmark env ev d = (Inr (PBError (Caught e)), d)"
    by (rule addNewBookmark_parse_error[OF assms])
next
  assume p: "parse_field env data ''category'' = Inr category \<and>
     parse_tags env data = Inr tags_json \<and>
     prepareTags env (tags d) tags_json owner = Inr (tagIds, tag_rows)"
  assume "rejects env (d\<lparr>tags := tag_rows\<rparr>)
          (Insert_bookmark (addNewBookmark_data env owner data category)) = Some e"
  with p show "addNewBookmark env ev d = (Inr (PBError (Caught e)), d\<lparr>tags := tag_rows\<rparr>)"
    using addNewBookmark_insert_rejected[OF assms] by blast
next
  assume p: "parse_field env data ''category'' = Inr category \<and>
     parse_tags env data = Inr tags_json \<and>
     prepareTags env (tags d) tags_json owner = Inr (tagIds, tag_rows)"
  assume i: "insert_bookmark env (addNewBookmark_data env owner data category) (d\<lparr>tags := tag_rows\<rparr>)
          = Inr (bookmark, d1) \<and> b_id bookmark \<noteq> 0"
  assume "fst (insert_tags env (b_id bookmark) tagIds d1) = Some e"
  with p i show "fst (addNewBookmark env ev d) = Inr (PBError (Caught e))"
    using addNewBookmark_join_rejected[OF assms] by blast
next
  assume p: "parse_field env data ''category'' = Inr category \<and>
     parse_tags env data = Inr tags_json \<and>
     prepareTags env (tags d) tags_json owner = Inr (tagIds, tag_rows)"
  assume i: "insert_bookmark env (addNewBookmark_data env owner data category) (d\<lparr>tags := tag_rows\<rparr>)
          = Inr (bookmark, d1) \<and> b_id bookmark \<noteq> 0"
  assume "insert_tags env (b_id bookmark) tagIds d1 = (None, d2) \<and>
           storeImage env (data ''main_image_url'') (data ''title'') owner d2 = (Inr mainImageId, d3) \<and>
           storeImage env (data ''icon_url'') (data ''title'') owner d3 = (Inr iconId, d4) \<and>
           (truthy_id mainImageId \<or> truthy_id iconId) \<and>
           rejects env d4 (image_patch mainImageId iconId (b_id bookmark)) = Some e"
  with p i show "addNewBookmark env ev d = (Inr (PBError (Caught e)), d4)"
    using addNewBookmark_patch_rejected[OF assms, of env category tags_json d tagIds tag_rows
        bookmark d1 d2 mainImageId d3 iconId d4 e]
    by blast
qed

lemma join_rejecting_env_simps:
  "json_parse join_rejecting_env = sample_parse"
  "prepareTags join_rejecting_env rows j owner = Inr (number_ids j, rows)"
  "rejects join_rejecting_env d (Insert_bookmark v) = None"
  "rejects join_rejecting_env d (Insert_bookmarksToTags b t) = Some (DatabaseError ''join'')"
  by (simp_all add: join_rejecting_env_def sample_env_def)

theorem C6_errors_in_try_are_caught_witness:
  "fst (insert_tags join_rejecting_env 9 [10, 11] sample_db) = Some (DatabaseError ''join'') \<and>
   fst (addNewBookmark join_rejecting_env add_event sample_db) =
     Inr (PBError (Caught (DatabaseError ''join'')))"
proof -
  let ?data = "map_of [(''url'', ''https://example.org/b''), (''title'', ''B''), (''category'', ''4''),
        (''tags'', ''[10,11]''), (''main_image_url'', ''https://example.org/b.png'')]"
  let ?v = "addNewBookmark_data join_rejecting_env 1 ?data (JNum 4)"
  let ?d0 = "sample_db\<lparr>tags := []\<rparr>"
  let ?b = "new_bookmark join_rejecting_env (next_bookmark_id ?d0) ?v"
  let ?d1 = "?d0\<lparr>bookmarks := bookmarks ?d0 @ [?b],
                 next_bookmark_id := next_bookmark_id ?d0 + 1,
                 executed := executed ?d0 @ [Insert_bookmark ?v]\<rparr>"
  have h3: "parse_field join_rejecting_env ?data ''category'' = Inr (JNum 4)"
    by (simp add: parse_field_def to_string_def join_rejecting_env_simps sample_parse_simps)
  have h4: "parse_tags join_rejecting_env ?data = Inr (JArr [JNum 10, JNum 11])"
    by (simp add: parse_tags_def truthy_str_def parse_field_def to_string_def
        join_rejecting_env_simps sample_parse_simps)
  have h5: "prepareTags join_rejecting_env (tags sample_db) (JArr [JNum 10, JNum 11]) 1
      = Inr ([10, 11], [])"
    by (simp add: join_rejecting_env_simps sample_db_def)
  have h6: "insert_bookmark join_rejecting_env ?v ?d0 = Inr (?b, ?d1)"
    by (rule insert_bookmark_accepted) (simp only: join_rejecting_env_simps)
  have h7: "b_id ?b \<noteq> 0"
    by (simp add: new_bookmark_def sample_db_def)
  have t: "\<And>d. fst (insert_tags join_rejecting_env 9 [10, 11] d) = Some (DatabaseError ''join'')"
    by (simp add: run_def join_rejecting_env_simps)
  have b: "b_id ?b = 9"
    by (simp add: new_bookmark_def sample_db_def)
  have h8: "fst (insert_tags join_rejecting_env (b_id ?b) [10, 11] ?d1) = Some (DatabaseError ''join'')"
    unfolding b by (rule t)
  show ?thesis
    using C6_errors_in_try_are_caught[OF add_event_simps, of join_rejecting_env sample_db
        "DatabaseError ''join''" "JNum 4" "JArr [JNum 10, JNum 11]" "[10, 11]" "[]" ?b ?d1]
      h3 h4 h5 h6 h7 h8 t[of sample_db]
    by blast
qed

subsection \<open>changeTheme\<close>

lemma run_select_user_settings:
  "run env (Select_user_settings f) d = Inr d1 \<Longrightarrow>
   d1 = d\<lparr>executed := executed d @ [Select_user_settings f]\<rparr>"
  by (auto simp: run_def split: option.splits)

lemma run_executed:
  "run env s d = Inr d1 \<Longrightarrow> executed d1 = executed d @ [s]"
  by (cases s) (auto simp: run_def split: option.splits)

lemma changeTheme_reaches_try:
  assumes "owner_of ev = Some owner" and "formData ev = Inr data"
    and "run env (Select_user_settings (Id_eq (Num owner))) d = Inr d1"
    and "filter (\<lambda>u. matches (Id_eq (Num owner)) (u_id u)) (users d) = u # rest"
  shows "changeTheme env ev d =
           catch_failure (changeTheme_try env owner (theme_value data) (u # rest) d1)"
  using assms run_select_user_settings[OF assms(3)]
  by (simp add: changeTheme_def)

lemma sample_parse_settings:
  "sample_parse sample_settings = Some (JObj [(''lang'', JStr ''en'')])"
  by (simp add: sample_parse_def sample_settings_def quoted_def)

text \<open>
  Claim C8: for an authenticated owner (the select accepted, the user's row found),
  when the stored settings parse to an object, the value \<open>changeTheme\<close> writes is that
  object with \<open>theme\<close> set to the submitted value, every other key keeping its value;
  when \<open>JSON.parse\<close> throws or the database rejects the update, the action returns
  \<open>{success: false}\<close>.
\<close>

theorem C8_theme_merged_into_settings:
  assumes "owner_of ev = Some owner" and "formData ev = Inr data"
    and "run env (Select_user_settings (Id_eq (Num owner))) d = Inr d1"
    and "filter (\<lambda>u. matches (Id_eq (Num owner)) (u_id u)) (users d) = u # rest"
  shows
    "(json_parse env (to_string (u_settings u)) = Some (JObj kvs) \<longrightarrow>
        (run env (Update_user_settings (merge_theme (JObj kvs) (theme_value data)) (Id_eq (Num owner))) d1
           = Inr d2 \<longrightarrow>
         changeTheme env ev d = (Inr Success, d2) \<and>
         last (executed d2) =
           Update_user_settings (JObj (AList.update ''theme'' (theme_value data) kvs))
             (Id_eq (Num owner))) \<and>
        map_of (AList.update ''theme'' (theme_value data) kvs) ''theme'' = Some (theme_value data) \<and>
        (\<forall>k. k \<noteq> ''theme'' \<longrightarrow>
           map_of (AList.update ''theme'' (theme_value data) kvs) k = map_of kvs k) \<and>
        (run env (Update_user_settings (merge_theme (JObj kvs) (theme_value data)) (Id_eq (Num owner))) d1
           = Inl e \<longrightarrow>
         changeTheme env ev d = (Inr Failure, d1))) \<and>
     (json_parse env (to_string (u_settings u)) = None \<longrightarrow>
        changeTheme env ev d = (Inr Failure, d1)) \<and>
     success Failure = Some False"
proof -
  note reach = changeTheme_reaches_try[OF assms]
  have written: "run env (Update_user_settings (merge_theme (JObj kvs) (theme_value data)) (Id_eq (Num owner))) d1
           = Inr d2 \<Longrightarrow> last (executed d2) =
           Update_user_settings (JObj (AList.update ''theme'' (theme_value data) kvs))
             (Id_eq (Num owner))"
    by (drule run_executed) (simp add: merge_theme_def)
  show ?thesis
    using written
    by (auto simp: reach changeTheme_try_def catch_failure_def update_conv')
qed

lemma theme_event_simps:
  "owner_of theme_event = Some 1"
  "formData theme_event = Inr (map_of [(''theme'', ''dark'')])"
  by (simp_all add: theme_event_def sample_event_def owner_of_def)

theorem C8_theme_merged_into_settings_witness:
  "changeTheme sample_env theme_event sample_db =
     (Inr Success,
      sample_db
        \<lparr>users := [\<lparr>u_id = 1, u_settings = Some ''{}''\<rparr>],
         executed :=
           [Select_user_settings (Id_eq (Num 1)),
            Update_user_settings (JObj [(''lang'', JStr ''en''), (''theme'', JStr ''dark'')])
              (Id_eq (Num 1))]\<rparr>)"
proof -
  have h4: "filter (\<lambda>u. matches (Id_eq (Num 1)) (u_id u)) (users sample_db) =
      \<lparr>u_id = 1, u_settings = Some sample_settings\<rparr> # []"
    by (simp add: sample_db_def)
  have p: "json_parse sample_env (to_string (u_settings \<lparr>u_id = 1, u_settings = Some sample_settings\<rparr>))
      = Some (JObj [(''lang'', JStr ''en'')])"
    by (simp add: sample_env_simps to_string_def sample_parse_settings)
  show ?thesis
    using C8_theme_merged_into_settings[OF theme_event_simps sample_accepts h4,
        of "[(''lang'', JStr ''en'')]" _ _] p sample_accepts
    by (simp add: sample_db_def theme_value_def merge_theme_def sample_env_def)
qed

end
